theory Spec2Isabelle
  imports Complex_Main "HOL-Library.Sublist" "HOL-Library.AList"
    "HOL-Library.Char_ord" "HOL-Library.List_Lexorder"
begin

section \<open>Python strings\<close>

text \<open>
  A Python \<open>str\<close> is modelled as a \<open>string\<close> (a list of 8-bit characters).
  \<open>s.lower()\<close> maps the ASCII capitals to their small letters and leaves every other
  character alone; the model therefore covers paths written in ASCII.
  The operator \<open>a in s\<close> on strings is \<^const>\<open>sublist\<close>, and \<open>s.endswith(a)\<close> is
  \<^const>\<open>suffix\<close>; both are executable.
\<close>

definition lower_char :: "char \<Rightarrow> char" where
  "lower_char c =
     (case map_of (zip ''ABCDEFGHIJKLMNOPQRSTUVWXYZ'' ''abcdefghijklmnopqrstuvwxyz'') c of
        Some l \<Rightarrow> l
      | None \<Rightarrow> c)"

definition lower :: "string \<Rightarrow> string" where
  "lower s = map lower_char s"

text \<open>\<open>s.split(c)\<close> for a one-character separator: never empty, \<open>''.split(c) == ['']\<close>.\<close>

fun split_on :: "char \<Rightarrow> string \<Rightarrow> string list" where
  "split_on c [] = [[]]"
| "split_on c (x # xs) =
     (if x = c then [] # split_on c xs
      else (x # hd (split_on c xs)) # tl (split_on c xs))"

text \<open>\<open>sep.join(parts)\<close>.\<close>

fun join :: "string \<Rightarrow> string list \<Rightarrow> string" where
  "join sep [] = []"
| "join sep [w] = w"
| "join sep (w # ws) = w @ sep @ join sep ws"

section \<open>Python values, dictionaries and exceptions\<close>

text \<open>
  Option values are copied around without being inspected, so they are kept as tagged
  Python values. A \<open>dict\<close> is an association list in insertion order;
  \<open>d[k] = v\<close> is \<^const>\<open>AList.update\<close> (an existing key keeps its place, a new key goes
  to the end), \<open>del d[k]\<close> is \<^const>\<open>AList.delete\<close>, \<open>k in d\<close> is
  \<open>map_of d k \<noteq> None\<close> and \<open>len(d)\<close> is \<^const>\<open>length\<close>.
  \<open>copy.deepcopy\<close> is the identity on these immutable values.
\<close>

datatype pyval =
    VNone
  | VBool bool
  | VInt int
  | VFloat real
  | VStr string
  | VDict "(string \<times> pyval) list"

type_synonym pydict = "(string \<times> pyval) list"

datatype error =
    ValueError string
  | NotImplementedError string
  | RuntimeError string
  | KeyError string
  | TypeError
  | UnboundLocalError string
  | AssertionError

section \<open>data.py: source classification\<close>

definition is_kubric_source :: "string \<Rightarrow> bool" where
  "is_kubric_source cur_data_path \<longleftrightarrow>
     sublist ''kubcon'' (lower cur_data_path) \<or> sublist ''kubbench'' (lower cur_data_path)"

definition is_ytvos_source :: "string \<Rightarrow> bool" where
  "is_ytvos_source cur_data_path \<longleftrightarrow> sublist ''youtube-vos'' (lower cur_data_path)"

definition is_plugin_source :: "string \<Rightarrow> bool" where
  "is_plugin_source cur_data_path \<longleftrightarrow>
     sublist ''plugin'' (lower cur_data_path) \<or>
     suffix ''.mp4'' (lower cur_data_path) \<or>
     suffix ''.avi'' (lower cur_data_path) \<or>
     suffix ''.gif'' (lower cur_data_path) \<or>
     suffix ''.webm'' (lower cur_data_path)"

text \<open>
  The \<open>if / elif / elif / else\<close> chain that both loader loops run on every path
  (lines 60--78 and 214--236 of data.py): the branch it selects, or the
  \<open>ValueError\<close> of its last branch.
\<close>

datatype source_tag = Kubric | Ytvos | Plugin

definition classify_source :: "string \<Rightarrow> error + source_tag" where
  "classify_source cur_data_path =
     (if is_kubric_source cur_data_path then Inr Kubric
      else if is_ytvos_source cur_data_path then Inr Ytvos
      else if is_plugin_source cur_data_path then Inr Plugin
      else Inl (ValueError (''Unknown data path: '' @ cur_data_path)))"

section \<open>data.py: options, datasets and loaders\<close>

text \<open>
  The argparse namespace, with the attributes data.py reads. The attributes the code
  branches on have their Python type; the others are only copied into configurations.
  The same record serves for \<open>args\<close>, \<open>train_args\<close> and \<open>test_args\<close>.
\<close>

record args =
  data_path :: "string list"
  data_loop_only :: bool
  batch_size :: int
  num_workers :: int
  do_val_aug :: bool
  do_val_noaug :: bool
  which_seeker :: string
  num_frames :: pyval
  frame_height :: pyval
  frame_width :: pyval
  kubric_frame_rate :: pyval
  kubric_frame_stride :: pyval
  kubric_max_delay :: pyval
  use_data_frac :: pyval
  augs_2d :: pyval
  augs_3d :: pyval
  num_queries :: pyval
  seeker_query_time :: pyval
  force_perturb_idx :: pyval
  force_view_idx :: pyval
  single_scene :: pyval
  fake_data :: pyval
  augs_version :: pyval
  front_occl_thres :: pyval
  outer_cont_thres :: pyval
  kubric_reverse_prob :: pyval
  kubric_palindrome_prob :: pyval
  kubric_degrade :: pyval
  annot_visible_pxl_only :: pyval
  ytvos_frame_rate :: pyval
  ytvos_frame_stride :: pyval
  plugin_frame_rate :: pyval
  plugin_prefer_frame_stride :: pyval
  annots_must_exist :: pyval
  center_crop :: pyval

text \<open>
  The dataset classes live in other modules; a dataset object is the record of its
  constructor call: data path, phase tag and the keyword arguments. \<open>MixedDataset\<close>
  keeps the per-tag dictionary it was given (its values may be \<open>None\<close>) and the chunk
  size, \<open>ConcatDataset\<close> the list it was given.
\<close>

datatype dataset =
    KubricQueryDataset string string pydict
  | YoutubeVOSDataset string string pydict
  | PluginVideoDataset string string pydict
  | MixedDataset "(string \<times> dataset option) list" int
  | ConcatDataset "dataset list"

text \<open>
  \<open>torch.utils.data.DataLoader\<close>, as the record of its arguments
  (\<open>worker_init_fn\<close> is always \<open>_seed_worker\<close>). The checks that torch makes on these
  arguments (a \<open>batch_size\<close> that is not positive is a \<open>ValueError\<close> there) belong to
  torch and are not part of the record: a result \<open>Inr\<close> of the functions below says
  that the statements of this file raised nothing.
\<close>

record DataLoader =
  dl_dataset :: "dataset option"
  dl_batch_size :: int
  dl_num_workers :: int
  dl_shuffle :: bool
  dl_drop_last :: bool
  dl_pin_memory :: bool

datatype log_entry = LogInfo string | LogError string

subsection \<open>Per-source builders for training and validation\<close>

text \<open>
  \<open>query_size\<close> and \<open>load_3d\<close> are bound only for the two known seekers; reading
  them for any other seeker is Python's \<open>UnboundLocalError\<close>.
\<close>

definition create_kubric_train_val_data_loaders ::
  "args \<Rightarrow> string \<Rightarrow> error + (dataset \<times> dataset option \<times> dataset option \<times> pydict)" where
  "create_kubric_train_val_data_loaders args cur_data_path =
     (case (if which_seeker args = ''point_track_3d'' then Some (''point'', True)
            else if which_seeker args = ''mask_track_2d'' then Some (''thing'', False)
            else None) of
        None \<Rightarrow> Inl (UnboundLocalError ''query_size'')
      | Some (query_size, load_3d) \<Rightarrow>
          (let dset_args =
             [(''num_frames'', num_frames args),
              (''frame_height'', frame_height args),
              (''frame_width'', frame_width args),
              (''frame_rate'', kubric_frame_rate args),
              (''frame_stride'', kubric_frame_stride args),
              (''max_delay'', kubric_max_delay args),
              (''use_data_frac'', use_data_frac args),
              (''augs_2d'', augs_2d args),
              (''augs_3d'', augs_3d args),
              (''num_queries'', num_queries args),
              (''query_time'', seeker_query_time args),
              (''query_size'', VStr query_size),
              (''load_3d'', VBool load_3d),
              (''max_objects'', VInt 36),
              (''force_perturb_idx'', force_perturb_idx args),
              (''force_view_idx'', force_view_idx args),
              (''single_scene'', single_scene args),
              (''fake_data'', fake_data args),
              (''augs_version'', augs_version args),
              (''front_occl_thres'', front_occl_thres args),
              (''outer_cont_thres'', outer_cont_thres args),
              (''reverse_prob'', kubric_reverse_prob args),
              (''palindrome_prob'', kubric_palindrome_prob args),
              (''degrade'', kubric_degrade args),
              (''annot_visible_pxl_only'', annot_visible_pxl_only args)];
             train_dataset = KubricQueryDataset cur_data_path ''train'' dset_args;
             val_aug_dataset =
               (if do_val_aug args
                then Some (KubricQueryDataset cur_data_path ''val_aug'' dset_args) else None);
             val_noaug_dataset =
               (if do_val_noaug args
                then Some (KubricQueryDataset cur_data_path ''val_noaug'' dset_args) else None)
           in Inr (train_dataset, val_aug_dataset, val_noaug_dataset, dset_args)))"

definition create_youtube_vos_train_loader ::
  "args \<Rightarrow> string \<Rightarrow> error + (dataset \<times> pydict)" where
  "create_youtube_vos_train_loader args cur_data_path =
     (if which_seeker args \<noteq> ''mask_track_2d'' then Inl AssertionError
      else
        (let dset_args =
           [(''num_frames'', num_frames args),
            (''frame_height'', frame_height args),
            (''frame_width'', frame_width args),
            (''frame_rate'', ytvos_frame_rate args),
            (''frame_stride'', ytvos_frame_stride args),
            (''use_data_frac'', use_data_frac args),
            (''augs_2d'', augs_2d args),
            (''query_time'', seeker_query_time args),
            (''augs_version'', augs_version args)];
           train_dataset = YoutubeVOSDataset cur_data_path ''train'' dset_args
         in Inr (train_dataset, dset_args)))"

subsection \<open>create_train_val_data_loaders\<close>

text \<open>
  The local variables that the loop over the paths writes. A local that the loop may
  never bind is an \<open>option\<close>, \<open>None\<close> meaning unbound; the validation datasets are
  themselves \<open>None\<close> in Python when their flag is off, hence the double \<open>option\<close>.
\<close>

record tv_state =
  train_dset_sources :: "(string \<times> dataset) list"
  val_aug_dset_sources :: "(string \<times> dataset option) list"
  val_noaug_dset_sources :: "(string \<times> dataset option) list"
  dset_args_sources :: pydict
  train_dataset :: "dataset option"
  val_aug_dataset :: "dataset option option"
  val_noaug_dataset :: "dataset option option"

definition tv_init :: tv_state where
  "tv_init =
     \<lparr>train_dset_sources = [], val_aug_dset_sources = [], val_noaug_dset_sources = [],
      dset_args_sources = [], train_dataset = None, val_aug_dataset = None,
      val_noaug_dataset = None\<rparr>"

text \<open>Lines 60--78: the body of the loop, for one path.\<close>

definition train_val_body :: "args \<Rightarrow> string \<Rightarrow> tv_state \<Rightarrow> error + tv_state" where
  "train_val_body args cur_data_path st =
     (if is_kubric_source cur_data_path then
        (case create_kubric_train_val_data_loaders args cur_data_path of
           Inl e \<Rightarrow> Inl e
         | Inr (tr, va, vn, dset_args) \<Rightarrow>
             Inr (st\<lparr>train_dset_sources := AList.update ''kubric'' tr (train_dset_sources st),
                      val_aug_dset_sources :=
                        AList.update ''kubric'' va (val_aug_dset_sources st),
                      val_noaug_dset_sources :=
                        AList.update ''kubric'' vn (val_noaug_dset_sources st),
                      dset_args_sources :=
                        AList.update ''kubric'' (VDict dset_args) (dset_args_sources st),
                      train_dataset := Some tr,
                      val_aug_dataset := Some va,
                      val_noaug_dataset := Some vn\<rparr>))
      else if is_ytvos_source cur_data_path then
        (case create_youtube_vos_train_loader args cur_data_path of
           Inl e \<Rightarrow> Inl e
         | Inr (tr, dset_args) \<Rightarrow>
             Inr (st\<lparr>train_dset_sources := AList.update ''ytvos'' tr (train_dset_sources st),
                      dset_args_sources :=
                        AList.update ''ytvos'' (VDict dset_args) (dset_args_sources st),
                      train_dataset := Some tr\<rparr>))
      else if is_plugin_source cur_data_path then
        Inl (NotImplementedError ''Plugin video is only available at test time.'')
      else Inl (ValueError (''Unknown data path: '' @ cur_data_path)))"

text \<open>The \<open>for\<close> loop of line 59: an exception in the body ends it.\<close>

fun train_val_loop :: "args \<Rightarrow> string list \<Rightarrow> tv_state \<Rightarrow> error + tv_state" where
  "train_val_loop args [] st = Inr st"
| "train_val_loop args (cur_data_path # rest) st =
     (case train_val_body args cur_data_path st of
        Inl e \<Rightarrow> Inl e
      | Inr st' \<Rightarrow> train_val_loop args rest st')"

text \<open>
  Lines 80--91: the training dataset and the shuffle flag after it.
\<close>

definition select_train :: "args \<Rightarrow> tv_state \<Rightarrow> bool \<Rightarrow> error + (dataset \<times> bool)" where
  "select_train args st shuffle =
     (if length (train_dset_sources st) = 1 then
        (case train_dataset st of
           None \<Rightarrow> Inl (UnboundLocalError ''train_dataset'')
         | Some d \<Rightarrow> Inr (d, shuffle))
      else if length (train_dset_sources st) > 1 then
        Inr (MixedDataset (map (\<lambda>(k, d). (k, Some d)) (train_dset_sources st))
               (batch_size args), False)
      else Inl (RuntimeError ''No training datasets were successfully instantiated.''))"

text \<open>
  Lines 93--109: the two validation datasets (\<open>None\<close> when the local stays unbound),
  the shuffle flag after it, and what was logged.
\<close>

definition select_val ::
  "args \<Rightarrow> tv_state \<Rightarrow> bool \<Rightarrow>
   log_entry list \<times> (error + (dataset option option \<times> dataset option option \<times> bool))" where
  "select_val args st shuffle =
     (if length (val_aug_dset_sources st) = 1 then
        (case (val_aug_dataset st, val_noaug_dataset st) of
           (Some va, Some vn) \<Rightarrow> ([], Inr (Some va, Some vn, shuffle))
         | (None, _) \<Rightarrow> ([], Inl (UnboundLocalError ''val_aug_dataset''))
         | (Some va, None) \<Rightarrow> ([], Inl (UnboundLocalError ''val_noaug_dataset'')))
      else if length (val_aug_dset_sources st) > 1 then
        ([], Inr
          (Some (if do_val_aug args
                 then Some (MixedDataset (val_aug_dset_sources st) (batch_size args))
                 else None),
           Some (if do_val_noaug args
                 then Some (MixedDataset (val_noaug_dset_sources st) (batch_size args))
                 else None),
           False))
      else if do_val_aug args \<or> do_val_noaug args then
        ([LogError ''No validation datasets were successfully instantiated.''],
         Inr (None, None, shuffle))
      else ([], Inr (None, None, shuffle)))"

definition mk_train_val_loader :: "args \<Rightarrow> dataset option \<Rightarrow> bool \<Rightarrow> DataLoader" where
  "mk_train_val_loader args d shuffle =
     \<lparr>dl_dataset = d, dl_batch_size = batch_size args, dl_num_workers = num_workers args,
      dl_shuffle = shuffle, dl_drop_last = True, dl_pin_memory = False\<rparr>"

text \<open>
  Lines 111--123. A validation loader is built only when its flag is set, and building
  it reads the local \<open>final_val_*_dataset\<close>, which fails when that local is unbound.
\<close>

definition make_loaders ::
  "args \<Rightarrow> dataset \<Rightarrow> dataset option option \<Rightarrow> dataset option option \<Rightarrow> bool \<Rightarrow>
   error + (DataLoader \<times> DataLoader option \<times> DataLoader option)" where
  "make_loaders args final_train_dataset final_val_aug_dataset final_val_noaug_dataset shuffle =
     (let train_loader = mk_train_val_loader args (Some final_train_dataset) shuffle in
      case (if do_val_aug args then
              (case final_val_aug_dataset of
                 None \<Rightarrow> Inl (UnboundLocalError ''final_val_aug_dataset'')
               | Some d \<Rightarrow> Inr (Some (mk_train_val_loader args d shuffle)))
            else Inr None) of
        Inl e \<Rightarrow> Inl e
      | Inr val_aug_loader \<Rightarrow>
          (case (if do_val_noaug args then
                   (case final_val_noaug_dataset of
                      None \<Rightarrow> Inl (UnboundLocalError ''final_val_noaug_dataset'')
                    | Some d \<Rightarrow> Inr (Some (mk_train_val_loader args d shuffle)))
                 else Inr None) of
             Inl e \<Rightarrow> Inl e
           | Inr val_noaug_loader \<Rightarrow> Inr (train_loader, val_aug_loader, val_noaug_loader)))"

text \<open>
  The whole function: what the logger received, and either the exception raised or
  \<open>(train_loader, val_aug_loader, val_noaug_loader, dset_args_sources)\<close>. The assertion
  of line 51 that \<open>data_path\<close> is a list is the type of the field \<open>data_path\<close>.
\<close>

definition create_train_val_data_loaders ::
  "args \<Rightarrow>
   log_entry list \<times> (error + (DataLoader \<times> DataLoader option \<times> DataLoader option \<times> pydict))" where
  "create_train_val_data_loaders args =
     (case train_val_loop args (data_path args) tv_init of
        Inl e \<Rightarrow> ([], Inl e)
      | Inr st \<Rightarrow>
          (case select_train args st (\<not> data_loop_only args) of
             Inl e \<Rightarrow> ([], Inl e)
           | Inr (final_train_dataset, shuffle1) \<Rightarrow>
               (case select_val args st shuffle1 of
                  (logs, Inl e) \<Rightarrow> (logs, Inl e)
                | (logs, Inr (final_val_aug_dataset, final_val_noaug_dataset, shuffle2)) \<Rightarrow>
                    (case make_loaders args final_train_dataset final_val_aug_dataset
                            final_val_noaug_dataset shuffle2 of
                       Inl e \<Rightarrow> (logs, Inl e)
                     | Inr (train_loader, val_aug_loader, val_noaug_loader) \<Rightarrow>
                         (logs, Inr (train_loader, val_aug_loader, val_noaug_loader,
                                     dset_args_sources st))))))"

subsection \<open>Per-source builders for testing\<close>

text \<open>
  \<open>train_dset_args_sources['kubric']\<close> raises \<open>KeyError\<close> when the key is missing.
  The value found is used as a dictionary; on any other Python value the membership
  test or the first item assignment raises \<open>TypeError\<close>.
\<close>

definition create_kubric_test_data_loader ::
  "args \<Rightarrow> args \<Rightarrow> pydict \<Rightarrow> string \<Rightarrow> error + (dataset \<times> pydict)" where
  "create_kubric_test_data_loader train_args test_args train_dset_args_sources cur_data_path =
     (case map_of train_dset_args_sources ''kubric'' of
        None \<Rightarrow> Inl (KeyError ''kubric'')
      | Some (VDict copied) \<Rightarrow>
          (let test_dset_args =
                 (if map_of copied ''augs_version'' = None
                  then AList.update ''augs_version'' (VInt 1) copied else copied);
               test_dset_args =
                 (if map_of test_dset_args ''load_full_segm'' \<noteq> None
                  then AList.delete ''load_full_segm'' test_dset_args else test_dset_args);
               test_dset_args =
                 AList.update ''single_scene'' (single_scene test_args) test_dset_args;
               test_dset_args = AList.update ''fake_data'' (fake_data test_args) test_dset_args;
               test_dset_args =
                 AList.update ''use_data_frac'' (use_data_frac test_args) test_dset_args;
               test_dset_args = AList.update ''augs_2d'' (VBool False) test_dset_args;
               test_dset_args = AList.update ''augs_3d'' (VBool False) test_dset_args;
               test_dset_args =
                 AList.update ''num_queries'' (num_queries test_args) test_dset_args;
               test_dset_args =
                 AList.update ''force_perturb_idx'' (force_perturb_idx test_args) test_dset_args;
               test_dset_args =
                 AList.update ''force_view_idx'' (force_view_idx test_args) test_dset_args;
               test_dset_args =
                 AList.update ''degrade'' (kubric_degrade test_args) test_dset_args;
               test_dset_args =
                 AList.update ''annot_visible_pxl_only'' (VBool False) test_dset_args;
               test_dataset = KubricQueryDataset cur_data_path ''test'' test_dset_args
           in Inr (test_dataset, test_dset_args))
      | Some _ \<Rightarrow> Inl TypeError)"

definition create_youtube_vos_test_loader ::
  "args \<Rightarrow> args \<Rightarrow> pydict \<Rightarrow> string \<Rightarrow> error + (dataset \<times> pydict)" where
  "create_youtube_vos_test_loader train_args test_args train_dset_args_sources cur_data_path =
     (case map_of train_dset_args_sources ''ytvos'' of
        None \<Rightarrow> Inl (KeyError ''ytvos'')
      | Some (VDict copied) \<Rightarrow>
          (let test_dset_args =
                 (if map_of copied ''augs_version'' = None
                  then AList.update ''augs_version'' (VInt 1) copied else copied);
               test_dset_args =
                 AList.update ''use_data_frac'' (use_data_frac test_args) test_dset_args;
               test_dset_args = AList.update ''augs_2d'' (VBool False) test_dset_args;
               test_dataset = YoutubeVOSDataset cur_data_path ''test'' test_dset_args
           in Inr (test_dataset, test_dset_args))
      | Some _ \<Rightarrow> Inl TypeError)"



subsection \<open>create_test_data_loader\<close>

record test_state =
  test_dataset_list :: "dataset list"
  test_dset_args_sources :: pydict
  train_dset_args_sources :: pydict
  test_dataset :: "dataset option"







section \<open>pick\_represent.py: filtering a result table by a guide\<close>

text \<open>
  A result table as read from \<open>itemized_results.csv\<close>: its column names and its rows.
  Only the two text columns that the row mask reads are kept; \<open>scene_dn\<close> of a row is
  read only when the table has that column.
\<close>

record csv_row =
  friendly_short_name :: string
  scene_dn :: string

record csv_table =
  columns :: "string list"
  rows :: "csv_row list"

text \<open>
  \<open>Series.str.contains(pat)\<close> on one cell. Patterns are taken literally, which is what
  pandas does for a pattern without regular-expression metacharacters.
\<close>

definition str_contains :: "string \<Rightarrow> string \<Rightarrow> bool" where
  "str_contains cell pat \<longleftrightarrow> sublist pat cell"

text \<open>Lines 127--134: the mask of one pattern, one entry per row.\<close>

definition cur_mask :: "csv_table \<Rightarrow> string \<Rightarrow> bool list" where
  "cur_mask csv cand_rep =
     (if sublist '','' cand_rep \<and> ''scene_dn'' \<in> set (columns csv) then
        (let cand_scene = split_on CHR '','' cand_rep ! 0;
             cand_friendly = split_on CHR '','' cand_rep ! 1;
             m = map (\<lambda>r. str_contains (scene_dn r) cand_scene) (rows csv)
         in if length cand_friendly > 0
            then map2 (\<and>) m
                   (map (\<lambda>r. str_contains (friendly_short_name r) cand_friendly) (rows csv))
            else m)
      else map (\<lambda>r. str_contains (friendly_short_name r) cand_rep) (rows csv))"

text \<open>
  Lines 124--136. The mask starts from the first line of the guide, matched against the
  friendly name as it stands, and the loop then takes every line, the first one included.
  Reading the friendly-name column of a table that lacks it is a \<open>KeyError\<close>. The guide
  is not empty here: an empty guide is skipped at line 110.
\<close>

definition agg_mask :: "csv_table \<Rightarrow> string list \<Rightarrow> error + bool list" where
  "agg_mask csv lines =
     (if ''friendly_short_name'' \<notin> set (columns csv)
      then Inl (KeyError ''friendly_short_name'')
      else Inr (fold (\<lambda>cand_rep agg. map2 (\<or>) agg (cur_mask csv cand_rep)) lines
                  (map (\<lambda>r. str_contains (friendly_short_name r) (lines ! 0)) (rows csv))))"

text \<open>
  Lines 109--143 for one guide and one table: the sorted lines, the selected rows
  \<open>csv[agg_mask]\<close>, and \<open>None\<close> where the source skips (\<open>continue\<close>) because the guide
  is empty or no row is selected.
\<close>

definition select_rows :: "csv_table \<Rightarrow> string list \<Rightarrow> error + csv_row list option" where
  "select_rows csv guide_lines =
     (let lines = sort guide_lines in
      if length lines = 0 then Inr None
      else
        (case agg_mask csv lines of
           Inl e \<Rightarrow> Inl e
         | Inr agg \<Rightarrow>
             (let sel_csv = map fst (filter snd (zip (rows csv) agg))
              in if length sel_csv = 0 then Inr None else Inr (Some sel_csv))))"

section \<open>pick\_represent.py: filtering aggregate metrics\<close>

text \<open>
  Lines 159--162 (and 257--258): a metrics dictionary, sorted by name and filtered.
  Metric values are numbers; the two comparisons are exact.
\<close>

definition keep_metric :: "string \<Rightarrow> real \<Rightarrow> bool" where
  "keep_metric k v \<longleftrightarrow> (sublist ''count'' k \<and> v > 0) \<or> (sublist ''mean'' k \<and> v > - 1.0)"

definition filter_metrics :: "(string \<times> real) list \<Rightarrow> (string \<times> real) list" where
  "filter_metrics metrics = filter (\<lambda>(k, v). keep_metric k v) (sort_key fst metrics)"

section \<open>pick\_represent.py: merging guides across result folders\<close>

text \<open>
  A row of the summary table (\<open>row_notes\<close> is the column \<open>notes\<close>). Merged rows
  carry no example count.
\<close>

record summary_row =
  guide :: string
  testres_dn :: string
  row_notes :: string
  num_examples :: "nat option"
  row_metrics :: "(string \<times> real) list"

text \<open>Lines 261--265: the first note whose pattern occurs in the name, else a blank.\<close>

fun find_note :: "(string \<times> string) list \<Rightarrow> string \<Rightarrow> string" where
  "find_note [] name = '' ''"
| "find_note ((testres_pat, note) # others) name =
     (if sublist testres_pat name then note else find_note others name)"

text \<open>
  Lines 243--274, the body of the inner loop for one guide name and one model pattern:
  the merged row that is appended, or \<open>None\<close> where the source skips the pair.
  \<open>calculate_weighted_averages_dataframe\<close> belongs to the metrics module and is a
  parameter.
\<close>

definition merge_pair ::
  "(summary_row list \<Rightarrow> (string \<times> real) list) \<Rightarrow> summary_row list \<Rightarrow>
   (string \<times> string) list \<Rightarrow> string \<Rightarrow> string \<Rightarrow> summary_row option" where
  "merge_pair calculate_weighted_averages_dataframe summary model_notes guide_name model_pat =
     (let sel_rows =
            filter (\<lambda>row. guide row = guide_name \<and> sublist model_pat (testres_dn row)) summary
      in
      if length sel_rows = 0 \<or> (\<not> sublist ''_m_'' guide_name \<and> length sel_rows \<le> 1)
      then None
      else
        Some \<lparr>guide = ''cd_'' @ guide_name,
              testres_dn = model_pat,
              row_notes = find_note model_notes model_pat,
              num_examples = None,
              row_metrics = filter_metrics (calculate_weighted_averages_dataframe sel_rows)\<rparr>)"

text \<open>
  \<open>merge_cross_dataset_guides\<close>, as far as the summary table goes: the rows of the given
  summary, followed by the merged rows in the order of the two loops. The copying of
  video files that follows each merged row touches only the file system and is left
  out. \<open>path_name\<close> stands for \<open>pathlib.Path(p).name\<close>, and \<open>list_of_set\<close> for
  \<open>list(set(...))\<close>, which returns the distinct elements in an order that Python does
  not fix; both are parameters.
\<close>

definition merge_cross_dataset_guides ::
  "(string list \<Rightarrow> string list) \<Rightarrow> (string \<Rightarrow> string) \<Rightarrow>
   (summary_row list \<Rightarrow> (string \<times> real) list) \<Rightarrow>
   summary_row list \<Rightarrow> string list \<Rightarrow> string list \<Rightarrow> (string \<times> string) list \<Rightarrow>
   summary_row list" where
  "merge_cross_dataset_guides list_of_set path_name calculate_weighted_averages_dataframe
     summary actual_guide_paths actual_testres_paths model_notes =
     (let model_pats =
            list_of_set
              (map (\<lambda>src_dp. join ''_'' (take 2 (split_on CHR ''_'' (path_name src_dp))))
                 actual_testres_paths)
      in
      summary @
      concat
        (map (\<lambda>cur_guide_fp.
                (let guide_name = split_on CHR ''.'' (path_name cur_guide_fp) ! 0
                 in concat
                      (map (\<lambda>model_pat.
                              (case merge_pair calculate_weighted_averages_dataframe summary
                                      model_notes guide_name model_pat of
                                 None \<Rightarrow> []
                               | Some new_row \<Rightarrow> [new_row]))
                         model_pats)))
           actual_guide_paths))"

section \<open>Example inputs\<close>

text \<open>
  A run on one synthetic-physics folder and one web-video folder, without validation;
  the examples below vary it with record updates.
\<close>

definition example_args :: args where
  "example_args =
     \<lparr>data_path = [''/data/kubcon_v10'', ''/data/youtube-vos''],
      data_loop_only = False, batch_size = 4, num_workers = 2,
      do_val_aug = False, do_val_noaug = False, which_seeker = ''mask_track_2d'',
      num_frames = VInt 12, frame_height = VInt 240, frame_width = VInt 320,
      kubric_frame_rate = VInt 24, kubric_frame_stride = VInt 2, kubric_max_delay = VInt 0,
      use_data_frac = VFloat 1, augs_2d = VBool True, augs_3d = VBool True,
      num_queries = VInt 3, seeker_query_time = VInt 0,
      force_perturb_idx = VInt (- 1), force_view_idx = VInt (- 1),
      single_scene = VBool False, fake_data = VBool False, augs_version = VInt 4,
      front_occl_thres = VFloat 0.95, outer_cont_thres = VFloat 0.75,
      kubric_reverse_prob = VFloat 0, kubric_palindrome_prob = VFloat 0,
      kubric_degrade = VStr ''none'', annot_visible_pxl_only = VBool True,
      ytvos_frame_rate = VInt 6, ytvos_frame_stride = VInt 1,
      plugin_frame_rate = VInt 24, plugin_prefer_frame_stride = VInt 3,
      annots_must_exist = VBool False, center_crop = VBool False\<rparr>"

section \<open>Source classification: priority order\<close>

text \<open>
  C2. Every path is classified as exactly one of synthetic-physics (\<open>Kubric\<close>),
  web-video (\<open>Ytvos\<close>) or user-clip (\<open>Plugin\<close>), or classification fails with the
  unknown-data-path error. The rules are tried in a fixed order on the lower-cased path:
  a path that contains \<open>kubcon\<close> or \<open>kubbench\<close> is synthetic-physics whatever else it
  contains; otherwise a path that contains \<open>youtube-vos\<close> is web-video; otherwise a path
  that contains \<open>plugin\<close> or ends in \<open>.mp4\<close>, \<open>.avi\<close>, \<open>.gif\<close> or \<open>.webm\<close> is
  user-clip; otherwise the error. Containment and ending are spelled out as
  decompositions of the lower-cased path.
\<close>

theorem classify_source_priority:
  "classify_source p =
     (if (\<exists>u v. lower p = u @ ''kubcon'' @ v) \<or> (\<exists>u v. lower p = u @ ''kubbench'' @ v)
        then Inr Kubric
      else if (\<exists>u v. lower p = u @ ''youtube-vos'' @ v)
        then Inr Ytvos
      else if (\<exists>u v. lower p = u @ ''plugin'' @ v) \<or>
              (\<exists>u. lower p = u @ ''.mp4'') \<or> (\<exists>u. lower p = u @ ''.avi'') \<or>
              (\<exists>u. lower p = u @ ''.gif'') \<or> (\<exists>u. lower p = u @ ''.webm'')
        then Inr Plugin
      else Inl (ValueError (''Unknown data path: '' @ p)))"
  unfolding classify_source_def is_kubric_source_def is_ytvos_source_def
    is_plugin_source_def sublist_def suffix_def
  by simp

theorem classify_source_priority_witness:
  "classify_source ''/data/KubCon_youtube-vos_plugin.mp4'' = Inr Kubric \<and>
   classify_source ''/data/YouTube-VOS/plugin.avi'' = Inr Ytvos \<and>
   classify_source ''/clips/cat.WEBM'' = Inr Plugin \<and>
   classify_source ''/data/davis'' = Inl (ValueError ''Unknown data path: /data/davis'')"
proof -
  have k: "lower ''/data/KubCon_youtube-vos_plugin.mp4'' =
           ''/data/'' @ ''kubcon'' @ ''_youtube-vos_plugin.mp4''"
    by (simp add: lower_def lower_char_def)
  have "classify_source ''/data/KubCon_youtube-vos_plugin.mp4'' = Inr Kubric"
    using k classify_source_priority [of "''/data/KubCon_youtube-vos_plugin.mp4''"]
    by metis
  moreover have "classify_source ''/data/YouTube-VOS/plugin.avi'' = Inr Ytvos"
    by (simp add: classify_source_def is_kubric_source_def is_ytvos_source_def
        lower_def lower_char_def sublist_code prefix_code)
  moreover have "classify_source ''/clips/cat.WEBM'' = Inr Plugin"
    by (simp add: classify_source_def is_kubric_source_def is_ytvos_source_def
        is_plugin_source_def lower_def lower_char_def sublist_code prefix_code
        suffix_to_prefix)
  moreover have
    "classify_source ''/data/davis'' = Inl (ValueError ''Unknown data path: /data/davis'')"
    by (simp add: classify_source_def is_kubric_source_def is_ytvos_source_def
        is_plugin_source_def lower_def lower_char_def sublist_code prefix_code
        suffix_to_prefix)
  ultimately show ?thesis by simp
qed

section \<open>Test configuration of the synthetic-physics source\<close>

text \<open>
  C1. For every valid train configuration (one that has the field \<open>augs_version\<close> and
  does not have the deprecated field \<open>load_full_segm\<close>), stored under the key
  \<open>kubric\<close>, \<open>create_kubric_test_data_loader\<close> returns a test configuration that
  agrees with the train configuration on every field outside the override set
  \<open>single_scene\<close>, \<open>fake_data\<close>, \<open>use_data_frac\<close>, \<open>augs_2d\<close>, \<open>augs_3d\<close>,
  \<open>num_queries\<close>, \<open>force_perturb_idx\<close>, \<open>force_view_idx\<close>, \<open>degrade\<close>,
  \<open>annot_visible_pxl_only\<close>. The fields of the set hold the test options, except that
  \<open>augs_2d\<close>, \<open>augs_3d\<close> and \<open>annot_visible_pxl_only\<close> are \<open>False\<close> whatever the train
  configuration said.
\<close>

theorem kubric_test_config_frame:
  assumes "map_of srcs ''kubric'' = Some (VDict cfg)"
    and "map_of cfg ''augs_version'' \<noteq> None"
    and "map_of cfg ''load_full_segm'' = None"
  shows "\<exists>test_cfg.
      create_kubric_test_data_loader train_args test_args srcs p =
        Inr (KubricQueryDataset p ''test'' test_cfg, test_cfg) \<and>
      (\<forall>k. k \<notin> {''single_scene'', ''fake_data'', ''use_data_frac'', ''augs_2d'', ''augs_3d'',
                 ''num_queries'', ''force_perturb_idx'', ''force_view_idx'', ''degrade'',
                 ''annot_visible_pxl_only''} \<longrightarrow> map_of test_cfg k = map_of cfg k) \<and>
      map_of test_cfg ''single_scene'' = Some (single_scene test_args) \<and>
      map_of test_cfg ''fake_data'' = Some (fake_data test_args) \<and>
      map_of test_cfg ''use_data_frac'' = Some (use_data_frac test_args) \<and>
      map_of test_cfg ''augs_2d'' = Some (VBool False) \<and>
      map_of test_cfg ''augs_3d'' = Some (VBool False) \<and>
      map_of test_cfg ''num_queries'' = Some (num_queries test_args) \<and>
      map_of test_cfg ''force_perturb_idx'' = Some (force_perturb_idx test_args) \<and>
      map_of test_cfg ''force_view_idx'' = Some (force_view_idx test_args) \<and>
      map_of test_cfg ''degrade'' = Some (kubric_degrade test_args) \<and>
      map_of test_cfg ''annot_visible_pxl_only'' = Some (VBool False)"
  using assms
  unfolding create_kubric_test_data_loader_def
  by (simp add: Let_def update_conv')

theorem kubric_test_config_frame_witness:
  "\<exists>test_cfg.
     create_kubric_test_data_loader example_args example_args
       [(''kubric'', VDict [(''num_frames'', VInt 12), (''augs_2d'', VBool True),
                            (''augs_version'', VInt 4),
                            (''annot_visible_pxl_only'', VBool True)])]
       ''/data/kubcon_v10'' =
       Inr (KubricQueryDataset ''/data/kubcon_v10'' ''test'' test_cfg, test_cfg) \<and>
     map_of test_cfg ''num_frames'' = Some (VInt 12) \<and>
     map_of test_cfg ''augs_version'' = Some (VInt 4) \<and>
     map_of test_cfg ''augs_2d'' = Some (VBool False) \<and>
     map_of test_cfg ''annot_visible_pxl_only'' = Some (VBool False)"
proof -
  let ?cfg = "[(''num_frames'', VInt 12), (''augs_2d'', VBool True),
               (''augs_version'', VInt 4), (''annot_visible_pxl_only'', VBool True)]"
  have h1: "map_of [(''kubric'', VDict ?cfg)] ''kubric'' = Some (VDict ?cfg)" by simp
  have h2: "map_of ?cfg ''augs_version'' \<noteq> None" by simp
  have h3: "map_of ?cfg ''load_full_segm'' = None" by simp
  from kubric_test_config_frame [OF h1 h2 h3, of example_args example_args "''/data/kubcon_v10''"]
  obtain test_cfg where
    r: "create_kubric_test_data_loader example_args example_args [(''kubric'', VDict ?cfg)]
          ''/data/kubcon_v10'' =
        Inr (KubricQueryDataset ''/data/kubcon_v10'' ''test'' test_cfg, test_cfg)"
    and fr: "\<forall>k. k \<notin> {''single_scene'', ''fake_data'', ''use_data_frac'', ''augs_2d'',
                  ''augs_3d'', ''num_queries'', ''force_perturb_idx'', ''force_view_idx'',
                  ''degrade'', ''annot_visible_pxl_only''} \<longrightarrow>
                map_of test_cfg k = map_of ?cfg k"
    and a2: "map_of test_cfg ''augs_2d'' = Some (VBool False)"
    and av: "map_of test_cfg ''annot_visible_pxl_only'' = Some (VBool False)"
    by blast
  from fr have "map_of test_cfg ''num_frames'' = map_of ?cfg ''num_frames''" by simp
  moreover from fr have "map_of test_cfg ''augs_version'' = map_of ?cfg ''augs_version''"
    by simp
  ultimately show ?thesis using r a2 av by simp
qed

section \<open>Row selection by a guide\<close>

lemma split_on_not_Nil: "split_on c s \<noteq> []"
  by (induction s) auto

lemma length_cur_mask: "length (cur_mask csv cand_rep) = length (rows csv)"
  by (simp add: cur_mask_def Let_def)

lemma fold_or_masks:
  assumes "length agg = n" and "\<And>c. length (f c) = n" and "i < n"
  shows "length (fold (\<lambda>c agg. map2 (\<or>) agg (f c)) ls agg) = n \<and>
         (fold (\<lambda>c agg. map2 (\<or>) agg (f c)) ls agg ! i \<longleftrightarrow> agg ! i \<or> (\<exists>c \<in> set ls. f c ! i))"
  using assms(1)
proof (induction ls arbitrary: agg)
  case Nil
  then show ?case by simp
next
  case (Cons c ls)
  have len: "length (map2 (\<or>) agg (f c)) = n"
    using Cons.prems assms(2) by simp
  have nth: "map2 (\<or>) agg (f c) ! i \<longleftrightarrow> agg ! i \<or> f c ! i"
    using Cons.prems assms(2) assms(3) by simp
  from Cons.IH [OF len] nth show ?case by auto
qed

text \<open>
  What the source computes in general: a row is selected when one of the patterns
  matches it, or when its friendly name contains the first line of the guide as it
  stands (the seed of the mask at line 124).
\<close>

lemma agg_mask_nth:
  assumes "''friendly_short_name'' \<in> set (columns csv)" and "i < length (rows csv)"
  shows "\<exists>m. agg_mask csv lines = Inr m \<and> length m = length (rows csv) \<and>
           (m ! i \<longleftrightarrow>
              str_contains (friendly_short_name (rows csv ! i)) (lines ! 0) \<or>
              (\<exists>cand_rep \<in> set lines. cur_mask csv cand_rep ! i))"
proof -
  let ?seed = "map (\<lambda>r. str_contains (friendly_short_name r) (lines ! 0)) (rows csv)"
  have "length ?seed = length (rows csv)" by simp
  from fold_or_masks [where f = "cur_mask csv" and ls = lines, OF this length_cur_mask assms(2)]
  show ?thesis using assms by (simp add: agg_mask_def)
qed

text \<open>The three rows of the example in the specification are selected as it says.\<close>

lemma select_rows_spec_example:
  "select_rows
     \<lparr>columns = [''friendly_short_name'', ''scene_dn''],
      rows = [\<lparr>friendly_short_name = ''baz_clip'', scene_dn = ''bar123''\<rparr>,
              \<lparr>friendly_short_name = ''foo_x'', scene_dn = ''s''\<rparr>,
              \<lparr>friendly_short_name = ''other'', scene_dn = ''bar123''\<rparr>]\<rparr>
     [''foo'', ''bar,baz''] =
   Inr (Some [\<lparr>friendly_short_name = ''baz_clip'', scene_dn = ''bar123''\<rparr>,
              \<lparr>friendly_short_name = ''foo_x'', scene_dn = ''s''\<rparr>])"
  by (simp add: select_rows_def agg_mask_def cur_mask_def str_contains_def sublist_code
      prefix_code less_eq_char_def less_char_def)

text \<open>
  C3. The selected rows are meant to be the union of the per-pattern matches, a pattern
  with a comma asking for the scene part in \<open>scene_dn\<close> and the name part in the
  friendly name. The source seeds the mask with the first line matched as a bare
  pattern, so with the guide \<open>bar,baz\<close> a row of scene \<open>xyz\<close> and friendly name
  \<open>bar,baz_clip\<close> is selected although the pattern does not match it: its scene does
  not contain \<open>bar\<close>.
\<close>

theorem agg_mask_seed_selects_unmatched_row:
  "cur_mask
     \<lparr>columns = [''friendly_short_name'', ''scene_dn''],
      rows = [\<lparr>friendly_short_name = ''bar,baz_clip'', scene_dn = ''xyz''\<rparr>]\<rparr>
     ''bar,baz'' = [False] \<and>
   agg_mask
     \<lparr>columns = [''friendly_short_name'', ''scene_dn''],
      rows = [\<lparr>friendly_short_name = ''bar,baz_clip'', scene_dn = ''xyz''\<rparr>]\<rparr>
     [''bar,baz''] = Inr [True] \<and>
   select_rows
     \<lparr>columns = [''friendly_short_name'', ''scene_dn''],
      rows = [\<lparr>friendly_short_name = ''bar,baz_clip'', scene_dn = ''xyz''\<rparr>]\<rparr>
     [''bar,baz''] =
   Inr (Some [\<lparr>friendly_short_name = ''bar,baz_clip'', scene_dn = ''xyz''\<rparr>])"
  by (simp add: select_rows_def agg_mask_def cur_mask_def str_contains_def sublist_code
      prefix_code)

section \<open>Filter on aggregate metrics\<close>

lemma distinct_keys_sort_key:
  "distinct (map fst (sort_key fst xs)) = distinct (map fst (xs :: (string \<times> real) list))"
proof -
  have ins: "distinct (map fst (insort_key fst x ys)) \<longleftrightarrow>
             fst x \<notin> fst ` set ys \<and> distinct (map fst ys)"
    for x :: "string \<times> real" and ys
    by (induction ys) (auto simp: set_insort_key)
  show ?thesis
    by (induction xs) (simp_all add: ins)
qed

text \<open>
  C4. For a metrics dictionary (its names are distinct), an entry is in the filtered
  dictionary exactly when it is in the given one and either its name contains
  \<open>count\<close> and its value is greater than 0, or its name contains \<open>mean\<close> and its value
  is greater than \<open>-1.0\<close>.
\<close>

theorem filter_metrics_iff:
  assumes "distinct (map fst metrics)"
  shows "map_of (filter_metrics metrics) k = Some v \<longleftrightarrow>
     map_of metrics k = Some v \<and>
     ((sublist ''count'' k \<and> v > 0) \<or> (sublist ''mean'' k \<and> v > - 1))"
  using assms
  by (simp add: filter_metrics_def keep_metric_def distinct_keys_sort_key distinct_map_filter)

text \<open>
  The four entries of the specification: \<open>count_valid = 0\<close> and \<open>mean_iou = -1.0\<close> are
  dropped, \<open>count_valid = 5\<close> and \<open>mean_iou = 0.42\<close> are kept.
\<close>

theorem filter_metrics_iff_witness:
  "distinct (map fst [(''count_valid'', 0 :: real), (''mean_iou'', - 1)]) \<and>
   map_of (filter_metrics [(''count_valid'', 0), (''mean_iou'', - 1)]) ''count_valid'' = None \<and>
   map_of (filter_metrics [(''count_valid'', 0), (''mean_iou'', - 1)]) ''mean_iou'' = None \<and>
   distinct (map fst [(''mean_iou'', 0.42 :: real), (''count_valid'', 5)]) \<and>
   map_of (filter_metrics [(''mean_iou'', 0.42), (''count_valid'', 5)]) ''count_valid'' = Some 5 \<and>
   map_of (filter_metrics [(''mean_iou'', 0.42), (''count_valid'', 5)]) ''mean_iou'' = Some 0.42"
proof -
  have d1: "distinct (map fst [(''count_valid'', 0 :: real), (''mean_iou'', - 1)])" by simp
  have d2: "distinct (map fst [(''mean_iou'', 0.42 :: real), (''count_valid'', 5)])" by simp
  have "map_of (filter_metrics [(''count_valid'', 0), (''mean_iou'', - 1)]) ''count_valid''
          = None"
  proof (cases "map_of (filter_metrics [(''count_valid'', 0), (''mean_iou'', - 1)])
                  ''count_valid''")
    case (Some v)
    with filter_metrics_iff [OF d1, of "''count_valid''" v] show ?thesis
      by (auto simp add: sublist_code prefix_code)
  qed simp
  moreover have
    "map_of (filter_metrics [(''count_valid'', 0), (''mean_iou'', - 1)]) ''mean_iou'' = None"
  proof (cases "map_of (filter_metrics [(''count_valid'', 0), (''mean_iou'', - 1)])
                  ''mean_iou''")
    case (Some v)
    with filter_metrics_iff [OF d1, of "''mean_iou''" v] show ?thesis
      by (auto simp add: sublist_code prefix_code)
  qed simp
  moreover have
    "map_of (filter_metrics [(''mean_iou'', 0.42), (''count_valid'', 5)]) ''count_valid'' = Some 5"
    using filter_metrics_iff [OF d2, of "''count_valid''" 5]
    by (simp add: sublist_code prefix_code)
  moreover have
    "map_of (filter_metrics [(''mean_iou'', 0.42), (''count_valid'', 5)]) ''mean_iou'' = Some 0.42"
    using filter_metrics_iff [OF d2, of "''mean_iou''" "0.42"]
    by (simp add: sublist_code prefix_code)
  ultimately show ?thesis using d1 d2 by simp
qed

section \<open>Cross-model merge\<close>

text \<open>
  The guard of the inner loop: for a guide name and a model pattern, with \<open>n\<close> the
  number of summary rows of that guide whose folder name contains the pattern, the body
  yields a merged row exactly when \<open>n \<ge> 2\<close>, or \<open>n \<ge> 1\<close> for a guide name that
  contains \<open>_m_\<close>.
\<close>

lemma merge_pair_threshold:
  "(merge_pair calc summary model_notes guide_name model_pat \<noteq> None) =
     (if sublist ''_m_'' guide_name
      then 1 \<le> length (filter (\<lambda>row. guide row = guide_name \<and>
                                       sublist model_pat (testres_dn row)) summary)
      else 2 \<le> length (filter (\<lambda>row. guide row = guide_name \<and>
                                       sublist model_pat (testres_dn row)) summary))"
proof -
  let ?n = "length (filter (\<lambda>row. guide row = guide_name \<and>
                                  sublist model_pat (testres_dn row)) summary)"
  have "merge_pair calc summary model_notes guide_name model_pat \<noteq> None \<longleftrightarrow>
        \<not> (?n = 0 \<or> (\<not> sublist ''_m_'' guide_name \<and> ?n \<le> 1))"
    unfolding merge_pair_def Let_def by (simp del: length_0_conv length_greater_0_conv)
  also have "\<dots> \<longleftrightarrow> (if sublist ''_m_'' guide_name then 1 \<le> ?n else 2 \<le> ?n)"
    by (cases "sublist ''_m_'' guide_name") (auto simp: Suc_le_eq)
  finally show ?thesis .
qed

text \<open>A merged row carries the guide name with the prefix \<open>cd_\<close> and the model pattern.\<close>

lemma merge_pair_row:
  assumes "merge_pair calc summary model_notes guide_name model_pat = Some new_row"
  shows "guide new_row = ''cd_'' @ guide_name \<and> testres_dn new_row = model_pat"
  using assms by (auto simp add: merge_pair_def Let_def split: if_splits)

lemma appended_rows_set:
  "new_row \<in> set (concat (map (\<lambda>g. concat (map (\<lambda>mp. case f g mp of
                                                         None \<Rightarrow> []
                                                       | Some r \<Rightarrow> [r]) mps)) gps)) \<longleftrightarrow>
     (\<exists>g \<in> set gps. \<exists>mp \<in> set mps. f g mp = Some new_row)"
  by (auto split: option.splits) metis+

lemma drop_all_summary: "drop (length summary) (summary @ rest) = rest"
  by simp

text \<open>
  The rows that \<open>merge_cross_dataset_guides\<close> appends, whatever the order in which
  \<open>list(set(...))\<close> lists the model patterns: the merged rows of all pairs of a guide
  file and a model pattern of a result folder.
\<close>

lemma merge_cross_dataset_guides_rows:
  assumes "set (list_of_set
                  (map (\<lambda>src_dp. join ''_'' (take 2 (split_on CHR ''_'' (path_name src_dp))))
                     actual_testres_paths)) =
           set (map (\<lambda>src_dp. join ''_'' (take 2 (split_on CHR ''_'' (path_name src_dp))))
                  actual_testres_paths)"
  shows "take (length summary)
           (merge_cross_dataset_guides list_of_set path_name calc summary actual_guide_paths
              actual_testres_paths model_notes) = summary"
    and "new_row \<in> set (drop (length summary)
           (merge_cross_dataset_guides list_of_set path_name calc summary actual_guide_paths
              actual_testres_paths model_notes)) \<longleftrightarrow>
         (\<exists>cur_guide_fp \<in> set actual_guide_paths. \<exists>src_dp \<in> set actual_testres_paths.
            merge_pair calc summary model_notes
              (split_on CHR ''.'' (path_name cur_guide_fp) ! 0)
              (join ''_'' (take 2 (split_on CHR ''_'' (path_name src_dp)))) = Some new_row)"
proof -
  show "take (length summary)
           (merge_cross_dataset_guides list_of_set path_name calc summary actual_guide_paths
              actual_testres_paths model_notes) = summary"
    by (simp add: merge_cross_dataset_guides_def Let_def)
  have i: "new_row \<in> set (drop (length summary)
           (merge_cross_dataset_guides list_of_set path_name calc summary actual_guide_paths
              actual_testres_paths model_notes)) \<longleftrightarrow>
        (\<exists>cur_guide_fp \<in> set actual_guide_paths.
           \<exists>mp \<in> set (list_of_set
                  (map (\<lambda>src_dp. join ''_'' (take 2 (split_on CHR ''_'' (path_name src_dp))))
                     actual_testres_paths)).
            merge_pair calc summary model_notes
              (split_on CHR ''.'' (path_name cur_guide_fp) ! 0) mp = Some new_row)"
    unfolding merge_cross_dataset_guides_def Let_def drop_all_summary
    by (rule appended_rows_set)
  show "new_row \<in> set (drop (length summary)
           (merge_cross_dataset_guides list_of_set path_name calc summary actual_guide_paths
              actual_testres_paths model_notes)) \<longleftrightarrow>
         (\<exists>cur_guide_fp \<in> set actual_guide_paths. \<exists>src_dp \<in> set actual_testres_paths.
            merge_pair calc summary model_notes
              (split_on CHR ''.'' (path_name cur_guide_fp) ! 0)
              (join ''_'' (take 2 (split_on CHR ''_'' (path_name src_dp)))) = Some new_row)"
    unfolding i assms by auto
qed

text \<open>
  C5. \<open>merge_cross_dataset_guides\<close> keeps the rows of the summary and appends merged
  rows. For every guide file and every result folder, with the guide name and the
  model pattern derived from them and \<open>n\<close> the number of summary rows of that guide
  whose folder name contains the pattern: a merged row for that guide (named with the
  prefix \<open>cd_\<close>) and that pattern is among the appended rows exactly when \<open>n \<ge> 2\<close> if
  the guide name does not contain \<open>_m_\<close>, and exactly when \<open>n \<ge> 1\<close> if it does; so
  one matching row alone gives no merged row unless the guide name has the marker.
  Every appended row is the merged row of such a pair. This holds for any order in
  which \<open>list(set(...))\<close> lists the model patterns.
\<close>

theorem merged_row_appended_iff:
  assumes "set (list_of_set
                  (map (\<lambda>src_dp. join ''_'' (take 2 (split_on CHR ''_'' (path_name src_dp))))
                     actual_testres_paths)) =
           set (map (\<lambda>src_dp. join ''_'' (take 2 (split_on CHR ''_'' (path_name src_dp))))
                  actual_testres_paths)"
  shows "take (length summary)
           (merge_cross_dataset_guides list_of_set path_name calc summary actual_guide_paths
              actual_testres_paths model_notes) = summary \<and>
         (\<forall>cur_guide_fp \<in> set actual_guide_paths. \<forall>src_dp \<in> set actual_testres_paths.
            (\<exists>new_row \<in> set (drop (length summary)
                 (merge_cross_dataset_guides list_of_set path_name calc summary
                    actual_guide_paths actual_testres_paths model_notes)).
               guide new_row = ''cd_'' @ split_on CHR ''.'' (path_name cur_guide_fp) ! 0 \<and>
               testres_dn new_row =
                 join ''_'' (take 2 (split_on CHR ''_'' (path_name src_dp)))) \<longleftrightarrow>
            (if sublist ''_m_'' (split_on CHR ''.'' (path_name cur_guide_fp) ! 0)
             then 1 \<le> length (filter (\<lambda>row.
                      guide row = split_on CHR ''.'' (path_name cur_guide_fp) ! 0 \<and>
                      sublist (join ''_'' (take 2 (split_on CHR ''_'' (path_name src_dp))))
                        (testres_dn row)) summary)
             else 2 \<le> length (filter (\<lambda>row.
                      guide row = split_on CHR ''.'' (path_name cur_guide_fp) ! 0 \<and>
                      sublist (join ''_'' (take 2 (split_on CHR ''_'' (path_name src_dp))))
                        (testres_dn row)) summary))) \<and>
         (\<forall>new_row \<in> set (drop (length summary)
                 (merge_cross_dataset_guides list_of_set path_name calc summary
                    actual_guide_paths actual_testres_paths model_notes)).
            \<exists>cur_guide_fp \<in> set actual_guide_paths. \<exists>src_dp \<in> set actual_testres_paths.
              guide new_row = ''cd_'' @ split_on CHR ''.'' (path_name cur_guide_fp) ! 0 \<and>
              testres_dn new_row =
                join ''_'' (take 2 (split_on CHR ''_'' (path_name src_dp))) \<and>
              (if sublist ''_m_'' (split_on CHR ''.'' (path_name cur_guide_fp) ! 0)
               then 1 \<le> length (filter (\<lambda>row.
                        guide row = split_on CHR ''.'' (path_name cur_guide_fp) ! 0 \<and>
                        sublist (join ''_'' (take 2 (split_on CHR ''_'' (path_name src_dp))))
                          (testres_dn row)) summary)
               else 2 \<le> length (filter (\<lambda>row.
                        guide row = split_on CHR ''.'' (path_name cur_guide_fp) ! 0 \<and>
                        sublist (join ''_'' (take 2 (split_on CHR ''_'' (path_name src_dp))))
                          (testres_dn row)) summary)))"
proof -
  let ?out = "merge_cross_dataset_guides list_of_set path_name calc summary
                actual_guide_paths actual_testres_paths model_notes"
  let ?app = "set (drop (length summary) ?out)"
  let ?gn = "\<lambda>cur_guide_fp. split_on CHR ''.'' (path_name cur_guide_fp) ! 0"
  let ?mp = "\<lambda>src_dp. join ''_'' (take 2 (split_on CHR ''_'' (path_name src_dp)))"
  let ?ok = "\<lambda>gn mp.
     if sublist ''_m_'' gn
     then 1 \<le> length (filter (\<lambda>row. guide row = gn \<and> sublist mp (testres_dn row)) summary)
     else 2 \<le> length (filter (\<lambda>row. guide row = gn \<and> sublist mp (testres_dn row)) summary)"
  note rows = merge_cross_dataset_guides_rows
      [where list_of_set = list_of_set and path_name = path_name and
         actual_testres_paths = actual_testres_paths and summary = summary and calc = calc and
         actual_guide_paths = actual_guide_paths and model_notes = model_notes, OF assms]
  have mem: "r \<in> ?app \<longleftrightarrow>
        (\<exists>g \<in> set actual_guide_paths. \<exists>t \<in> set actual_testres_paths.
           merge_pair calc summary model_notes (?gn g) (?mp t) = Some r)" for r
    by (rule rows(2))
  have thr: "(merge_pair calc summary model_notes gn mp \<noteq> None) = ?ok gn mp" for gn mp
    by (rule merge_pair_threshold)
  have a: "take (length summary) ?out = summary" by (rule rows(1))
  have b: "(\<exists>r \<in> ?app. guide r = ''cd_'' @ ?gn g \<and> testres_dn r = ?mp t) \<longleftrightarrow> ?ok (?gn g) (?mp t)"
    if g: "g \<in> set actual_guide_paths" and t: "t \<in> set actual_testres_paths" for g t
  proof
    assume "\<exists>r \<in> ?app. guide r = ''cd_'' @ ?gn g \<and> testres_dn r = ?mp t"
    then obtain r where r: "r \<in> ?app" and gr: "guide r = ''cd_'' @ ?gn g"
      and tr: "testres_dn r = ?mp t"
      by blast
    from r mem obtain g' t' where
      m: "merge_pair calc summary model_notes (?gn g') (?mp t') = Some r"
      by blast
    from merge_pair_row [OF m] gr tr have "?gn g' = ?gn g" "?mp t' = ?mp t" by simp_all
    with m have "merge_pair calc summary model_notes (?gn g) (?mp t) \<noteq> None" by simp
    then show "?ok (?gn g) (?mp t)" unfolding thr .
  next
    assume "?ok (?gn g) (?mp t)"
    then have "merge_pair calc summary model_notes (?gn g) (?mp t) \<noteq> None"
      unfolding thr .
    then obtain r where m: "merge_pair calc summary model_notes (?gn g) (?mp t) = Some r"
      by blast
    with mem g t have "r \<in> ?app" by blast
    with merge_pair_row [OF m] show "\<exists>r \<in> ?app. guide r = ''cd_'' @ ?gn g \<and> testres_dn r = ?mp t"
      by blast
  qed
  have c: "\<exists>g \<in> set actual_guide_paths. \<exists>t \<in> set actual_testres_paths.
             guide r = ''cd_'' @ ?gn g \<and> testres_dn r = ?mp t \<and> ?ok (?gn g) (?mp t)"
    if "r \<in> ?app" for r
  proof -
    from that mem obtain g t where g: "g \<in> set actual_guide_paths"
      and t: "t \<in> set actual_testres_paths"
      and m: "merge_pair calc summary model_notes (?gn g) (?mp t) = Some r"
      by blast
    from m have "merge_pair calc summary model_notes (?gn g) (?mp t) \<noteq> None" by simp
    then have "?ok (?gn g) (?mp t)" unfolding thr .
    with merge_pair_row [OF m] g t show ?thesis by blast
  qed
  show ?thesis
  proof (intro conjI ballI)
    show "take (length summary) ?out = summary" by (rule a)
  next
    fix g t
    assume "g \<in> set actual_guide_paths" "t \<in> set actual_testres_paths"
    then show "(\<exists>r \<in> ?app. guide r = ''cd_'' @ ?gn g \<and> testres_dn r = ?mp t) \<longleftrightarrow>
               ?ok (?gn g) (?mp t)"
      by (rule b)
  next
    fix r
    assume "r \<in> ?app"
    then show "\<exists>g \<in> set actual_guide_paths. \<exists>t \<in> set actual_testres_paths.
             guide r = ''cd_'' @ ?gn g \<and> testres_dn r = ?mp t \<and> ?ok (?gn g) (?mp t)"
      by (rule c)
  qed
qed

text \<open>
  Two result folders of one model, \<open>test_v111_d8\<close> and \<open>test_v111_d9\<close>, and three
  guides: \<open>occl\<close> with a row for each folder, \<open>solo\<close> with one row, and \<open>rdy_m_nl\<close>,
  whose name has the marker, with one row. Merged rows are appended for \<open>occl\<close> and
  \<open>rdy_m_nl\<close> and none for \<open>solo\<close>.
\<close>

theorem merged_row_appended_iff_witness:
  "set (remdups (map (\<lambda>src_dp. join ''_'' (take 2 (split_on CHR ''_'' src_dp)))
                   [''test_v111_d8'', ''test_v111_d9''])) =
   set (map (\<lambda>src_dp. join ''_'' (take 2 (split_on CHR ''_'' src_dp)))
          [''test_v111_d8'', ''test_v111_d9'']) \<and>
   (\<exists>new_row \<in> set (drop 4
        (merge_cross_dataset_guides remdups (\<lambda>p. p) (\<lambda>rs. [(''mean_iou'', 0.5)])
           [\<lparr>guide = ''occl'', testres_dn = ''test_v111_d8'', row_notes = '' '',
             num_examples = Some 3, row_metrics = []\<rparr>,
            \<lparr>guide = ''occl'', testres_dn = ''test_v111_d9'', row_notes = '' '',
             num_examples = Some 2, row_metrics = []\<rparr>,
            \<lparr>guide = ''solo'', testres_dn = ''test_v111_d8'', row_notes = '' '',
             num_examples = Some 1, row_metrics = []\<rparr>,
            \<lparr>guide = ''rdy_m_nl'', testres_dn = ''test_v111_d8'', row_notes = '' '',
             num_examples = Some 5, row_metrics = []\<rparr>]
           [''occl.txt'', ''solo.txt'', ''rdy_m_nl.txt'']
           [''test_v111_d8'', ''test_v111_d9''] [])).
      guide new_row = ''cd_occl'' \<and> testres_dn new_row = ''test_v111'') \<and>
   \<not> (\<exists>new_row \<in> set (drop 4
        (merge_cross_dataset_guides remdups (\<lambda>p. p) (\<lambda>rs. [(''mean_iou'', 0.5)])
           [\<lparr>guide = ''occl'', testres_dn = ''test_v111_d8'', row_notes = '' '',
             num_examples = Some 3, row_metrics = []\<rparr>,
            \<lparr>guide = ''occl'', testres_dn = ''test_v111_d9'', row_notes = '' '',
             num_examples = Some 2, row_metrics = []\<rparr>,
            \<lparr>guide = ''solo'', testres_dn = ''test_v111_d8'', row_notes = '' '',
             num_examples = Some 1, row_metrics = []\<rparr>,
            \<lparr>guide = ''rdy_m_nl'', testres_dn = ''test_v111_d8'', row_notes = '' '',
             num_examples = Some 5, row_metrics = []\<rparr>]
           [''occl.txt'', ''solo.txt'', ''rdy_m_nl.txt'']
           [''test_v111_d8'', ''test_v111_d9''] [])).
      guide new_row = ''cd_solo'' \<and> testres_dn new_row = ''test_v111'') \<and>
   (\<exists>new_row \<in> set (drop 4
        (merge_cross_dataset_guides remdups (\<lambda>p. p) (\<lambda>rs. [(''mean_iou'', 0.5)])
           [\<lparr>guide = ''occl'', testres_dn = ''test_v111_d8'', row_notes = '' '',
             num_examples = Some 3, row_metrics = []\<rparr>,
            \<lparr>guide = ''occl'', testres_dn = ''test_v111_d9'', row_notes = '' '',
             num_examples = Some 2, row_metrics = []\<rparr>,
            \<lparr>guide = ''solo'', testres_dn = ''test_v111_d8'', row_notes = '' '',
             num_examples = Some 1, row_metrics = []\<rparr>,
            \<lparr>guide = ''rdy_m_nl'', testres_dn = ''test_v111_d8'', row_notes = '' '',
             num_examples = Some 5, row_metrics = []\<rparr>]
           [''occl.txt'', ''solo.txt'', ''rdy_m_nl.txt'']
           [''test_v111_d8'', ''test_v111_d9''] [])).
      guide new_row = ''cd_rdy_m_nl'' \<and> testres_dn new_row = ''test_v111'')"
proof -
  let ?summary =
    "[\<lparr>guide = ''occl'', testres_dn = ''test_v111_d8'', row_notes = '' '',
       num_examples = Some 3, row_metrics = []\<rparr>,
      \<lparr>guide = ''occl'', testres_dn = ''test_v111_d9'', row_notes = '' '',
       num_examples = Some 2, row_metrics = []\<rparr>,
      \<lparr>guide = ''solo'', testres_dn = ''test_v111_d8'', row_notes = '' '',
       num_examples = Some 1, row_metrics = []\<rparr>,
      \<lparr>guide = ''rdy_m_nl'', testres_dn = ''test_v111_d8'', row_notes = '' '',
       num_examples = Some 5, row_metrics = []\<rparr>]"
  let ?gps = "[''occl.txt'', ''solo.txt'', ''rdy_m_nl.txt'']"
  let ?tps = "[''test_v111_d8'', ''test_v111_d9'']"
  have h: "set (remdups (map (\<lambda>src_dp. join ''_'' (take 2 (split_on CHR ''_'' src_dp))) ?tps)) =
           set (map (\<lambda>src_dp. join ''_'' (take 2 (split_on CHR ''_'' src_dp))) ?tps)"
    by (rule set_remdups)
  have gn: "split_on CHR ''.'' ''occl.txt'' ! 0 = ''occl''"
      "split_on CHR ''.'' ''solo.txt'' ! 0 = ''solo''"
      "split_on CHR ''.'' ''rdy_m_nl.txt'' ! 0 = ''rdy_m_nl''"
    by simp_all
  have len: "length ?summary = 4" by simp
  have mp: "join ''_'' (take 2 (split_on CHR ''_'' ''test_v111_d8'')) = ''test_v111''"
    by simp
  note t = merged_row_appended_iff
      [where list_of_set = remdups and path_name = "\<lambda>p. p" and actual_testres_paths = "?tps"
         and summary = "?summary" and calc = "\<lambda>rs. [(''mean_iou'', 0.5)]"
         and actual_guide_paths = "?gps" and model_notes = "[]",
       OF h, THEN conjunct2, THEN conjunct1, rule_format]
  have g: "''occl.txt'' \<in> set ?gps" "''solo.txt'' \<in> set ?gps" "''rdy_m_nl.txt'' \<in> set ?gps"
    and d: "''test_v111_d8'' \<in> set ?tps"
    by simp_all
  have a: "\<exists>new_row \<in> set (drop 4
             (merge_cross_dataset_guides remdups (\<lambda>p. p) (\<lambda>rs. [(''mean_iou'', 0.5)])
                ?summary ?gps ?tps [])).
             guide new_row = ''cd_occl'' \<and> testres_dn new_row = ''test_v111''"
    using t [OF g(1) d] unfolding gn mp len by (simp add: sublist_code prefix_code)
  have b: "\<not> (\<exists>new_row \<in> set (drop 4
             (merge_cross_dataset_guides remdups (\<lambda>p. p) (\<lambda>rs. [(''mean_iou'', 0.5)])
                ?summary ?gps ?tps [])).
             guide new_row = ''cd_solo'' \<and> testres_dn new_row = ''test_v111'')"
    using t [OF g(2) d] unfolding gn mp len by (simp add: sublist_code prefix_code)
  have c: "\<exists>new_row \<in> set (drop 4
             (merge_cross_dataset_guides remdups (\<lambda>p. p) (\<lambda>rs. [(''mean_iou'', 0.5)])
                ?summary ?gps ?tps [])).
             guide new_row = ''cd_rdy_m_nl'' \<and> testres_dn new_row = ''test_v111''"
    using t [OF g(3) d] unfolding gn mp len by (simp add: sublist_code prefix_code)
  from h a b c show ?thesis by (intro conjI)
qed

section \<open>The loop of create\_train\_val\_data\_loaders\<close>





text \<open>The loop body dispatches on the source tag of the path.\<close>

lemma train_val_body_dispatch:
  "train_val_body args p st =
     (case classify_source p of
        Inl e \<Rightarrow> Inl e
      | Inr Kubric \<Rightarrow>
          (case create_kubric_train_val_data_loaders args p of
             Inl e \<Rightarrow> Inl e
           | Inr (tr, va, vn, dset_args) \<Rightarrow>
               Inr (st\<lparr>train_dset_sources := AList.update ''kubric'' tr (train_dset_sources st),
                        val_aug_dset_sources :=
                          AList.update ''kubric'' va (val_aug_dset_sources st),
                        val_noaug_dset_sources :=
                          AList.update ''kubric'' vn (val_noaug_dset_sources st),
                        dset_args_sources :=
                          AList.update ''kubric'' (VDict dset_args) (dset_args_sources st),
                        train_dataset := Some tr,
                        val_aug_dataset := Some va,
                        val_noaug_dataset := Some vn\<rparr>))
      | Inr Ytvos \<Rightarrow>
          (case create_youtube_vos_train_loader args p of
             Inl e \<Rightarrow> Inl e
           | Inr (tr, dset_args) \<Rightarrow>
               Inr (st\<lparr>train_dset_sources := AList.update ''ytvos'' tr (train_dset_sources st),
                        dset_args_sources :=
                          AList.update ''ytvos'' (VDict dset_args) (dset_args_sources st),
                        train_dataset := Some tr\<rparr>))
      | Inr Plugin \<Rightarrow>
          Inl (NotImplementedError ''Plugin video is only available at test time.''))"
  by (simp add: train_val_body_def classify_source_def)

lemma kubric_builder_Inr:
  "(\<exists>r. create_kubric_train_val_data_loaders args p = Inr r) \<longleftrightarrow>
     which_seeker args = ''point_track_3d'' \<or> which_seeker args = ''mask_track_2d''"
  by (simp add: create_kubric_train_val_data_loaders_def Let_def)


lemma ytvos_builder_Inr:
  "(\<exists>r. create_youtube_vos_train_loader args p = Inr r) \<longleftrightarrow>
     which_seeker args = ''mask_track_2d''"
  by (simp add: create_youtube_vos_train_loader_def Let_def)


text \<open>
  Whether the body returns normally depends on the path and the seeker only, not on
  the state.
\<close>

lemma train_val_body_Inr_iff:
  "(\<exists>st'. train_val_body args p st = Inr st') \<longleftrightarrow>
     (classify_source p = Inr Kubric \<and>
        (which_seeker args = ''point_track_3d'' \<or> which_seeker args = ''mask_track_2d'')) \<or>
     (classify_source p = Inr Ytvos \<and> which_seeker args = ''mask_track_2d'')"
proof (cases "classify_source p")
  case (Inl e)
  then show ?thesis by (simp add: train_val_body_dispatch)
next
  case (Inr t)
  show ?thesis
  proof (cases t)
    case Kubric
    with Inr kubric_builder_Inr [of args p] show ?thesis
      by (auto simp add: train_val_body_dispatch split: sum.splits)
  next
    case Ytvos
    with Inr ytvos_builder_Inr [of args p] show ?thesis
      by (auto simp add: train_val_body_dispatch split: sum.splits)
  next
    case Plugin
    with Inr show ?thesis by (simp add: train_val_body_dispatch)
  qed
qed

lemma train_val_loop_append:
  "train_val_loop args (ps @ qs) st =
     (case train_val_loop args ps st of
        Inl e \<Rightarrow> Inl e
      | Inr s \<Rightarrow> train_val_loop args qs s)"
  by (induction ps arbitrary: st) (auto split: sum.splits)

lemma train_val_loop_snoc:
  "train_val_loop args (ps @ [p]) st = Inr st' \<longleftrightarrow>
     (\<exists>s. train_val_loop args ps st = Inr s \<and> train_val_body args p s = Inr st')"
  by (auto simp add: train_val_loop_append split: sum.splits)

lemma train_val_loop_Inr_iff:
  "(\<exists>st'. train_val_loop args ps st = Inr st') \<longleftrightarrow>
     (\<forall>p \<in> set ps.
        (classify_source p = Inr Kubric \<and>
           (which_seeker args = ''point_track_3d'' \<or> which_seeker args = ''mask_track_2d'')) \<or>
        (classify_source p = Inr Ytvos \<and> which_seeker args = ''mask_track_2d''))"
proof (induction ps arbitrary: st)
  case Nil
  then show ?case by simp
next
  case (Cons p ps)
  show ?case
  proof (cases "train_val_body args p st")
    case (Inl e)
    with train_val_body_Inr_iff [of args p st] show ?thesis by auto
  next
    case (Inr s)
    with train_val_body_Inr_iff [of args p st] Cons.IH [of s] show ?thesis by auto
  qed
qed

lemma train_val_body_Kubric:
  assumes "classify_source p = Inr Kubric" and "train_val_body args p s = Inr st"
  shows "\<exists>tr va vn cfg.
           create_kubric_train_val_data_loaders args p = Inr (tr, va, vn, cfg) \<and>
           st = s\<lparr>train_dset_sources := AList.update ''kubric'' tr (train_dset_sources s),
                  val_aug_dset_sources := AList.update ''kubric'' va (val_aug_dset_sources s),
                  val_noaug_dset_sources :=
                    AList.update ''kubric'' vn (val_noaug_dset_sources s),
                  dset_args_sources :=
                    AList.update ''kubric'' (VDict cfg) (dset_args_sources s),
                  train_dataset := Some tr,
                  val_aug_dataset := Some va,
                  val_noaug_dataset := Some vn\<rparr>"
  using assms by (auto simp add: train_val_body_dispatch split: sum.splits)

lemma train_val_body_Ytvos:
  assumes "classify_source p = Inr Ytvos" and "train_val_body args p s = Inr st"
  shows "\<exists>tr cfg.
           create_youtube_vos_train_loader args p = Inr (tr, cfg) \<and>
           st = s\<lparr>train_dset_sources := AList.update ''ytvos'' tr (train_dset_sources s),
                  dset_args_sources :=
                    AList.update ''ytvos'' (VDict cfg) (dset_args_sources s),
                  train_dataset := Some tr\<rparr>"
  using assms by (auto simp add: train_val_body_dispatch split: sum.splits)

lemma train_val_body_tag:
  assumes "train_val_body args p s = Inr st"
  shows "classify_source p = Inr Kubric \<or> classify_source p = Inr Ytvos"
  using train_val_body_Inr_iff [of args p s] assms by auto

text \<open>
  The state after the loop, started from the empty dictionaries: which keys the
  dictionaries have and which locals are bound.
\<close>

lemma train_val_loop_state:
  assumes "train_val_loop args ps tv_init = Inr st"
  shows "map fst (val_aug_dset_sources st) =
           (if \<exists>p \<in> set ps. classify_source p = Inr Kubric then [''kubric''] else []) \<and>
         (val_aug_dataset st = None \<longleftrightarrow> \<not> (\<exists>p \<in> set ps. classify_source p = Inr Kubric)) \<and>
         (val_noaug_dataset st = None \<longleftrightarrow> \<not> (\<exists>p \<in> set ps. classify_source p = Inr Kubric)) \<and>
         (train_dataset st = None \<longleftrightarrow> ps = []) \<and>
         distinct (map fst (train_dset_sources st)) \<and>
         set (map fst (train_dset_sources st)) =
           {k. k = ''kubric'' \<and> (\<exists>p \<in> set ps. classify_source p = Inr Kubric)} \<union>
           {k. k = ''ytvos'' \<and> (\<exists>p \<in> set ps. classify_source p = Inr Ytvos)}"
  using assms
proof (induction ps arbitrary: st rule: rev_induct)
  case Nil
  then show ?case by (auto simp add: tv_init_def)
next
  case (snoc p ps)
  from snoc.prems obtain s where
    s: "train_val_loop args ps tv_init = Inr s" and b: "train_val_body args p s = Inr st"
    by (auto simp add: train_val_loop_snoc)
  note ih = snoc.IH [OF s]
  from train_val_body_tag [OF b] show ?case
  proof
    assume k: "classify_source p = Inr Kubric"
    from train_val_body_Kubric [OF k b] obtain tr va vn cfg where
      st: "st = s\<lparr>train_dset_sources := AList.update ''kubric'' tr (train_dset_sources s),
                  val_aug_dset_sources := AList.update ''kubric'' va (val_aug_dset_sources s),
                  val_noaug_dset_sources :=
                    AList.update ''kubric'' vn (val_noaug_dset_sources s),
                  dset_args_sources :=
                    AList.update ''kubric'' (VDict cfg) (dset_args_sources s),
                  train_dataset := Some tr,
                  val_aug_dataset := Some va,
                  val_noaug_dataset := Some vn\<rparr>"
      by blast
    show ?thesis using ih k unfolding st
      by (auto simp add: update_keys distinct_update split: if_splits)
  next
    assume y: "classify_source p = Inr Ytvos"
    from train_val_body_Ytvos [OF y b] obtain tr cfg where
      st: "st = s\<lparr>train_dset_sources := AList.update ''ytvos'' tr (train_dset_sources s),
                  dset_args_sources :=
                    AList.update ''ytvos'' (VDict cfg) (dset_args_sources s),
                  train_dataset := Some tr\<rparr>"
      by blast
    show ?thesis using ih y unfolding st
      by (auto simp add: update_keys distinct_update split: if_splits)
  qed
qed

lemma val_keys_after_loop:
  assumes "train_val_loop args ps tv_init = Inr st"
  shows "map fst (val_aug_dset_sources st) =
           (if \<exists>p \<in> set ps. classify_source p = Inr Kubric then [''kubric''] else [])"
  using train_val_loop_state [OF assms] by simp

lemma val_locals_after_loop:
  assumes "train_val_loop args ps tv_init = Inr st"
  shows "val_aug_dataset st = None \<longleftrightarrow> \<not> (\<exists>p \<in> set ps. classify_source p = Inr Kubric)"
    and "val_noaug_dataset st = None \<longleftrightarrow> \<not> (\<exists>p \<in> set ps. classify_source p = Inr Kubric)"
  using train_val_loop_state [OF assms] by simp_all

lemma train_local_after_loop:
  assumes "train_val_loop args ps tv_init = Inr st"
  shows "train_dataset st = None \<longleftrightarrow> ps = []"
  using train_val_loop_state [OF assms] by simp

lemma train_sources_length:
  assumes "train_val_loop args ps tv_init = Inr st"
  shows "length (train_dset_sources st) =
           (if \<exists>p \<in> set ps. classify_source p = Inr Kubric then 1 else 0) +
           (if \<exists>p \<in> set ps. classify_source p = Inr Ytvos then 1 else 0)"
proof -
  from train_val_loop_state [OF assms] have
    d: "distinct (map fst (train_dset_sources st))" and
    s: "set (map fst (train_dset_sources st)) =
          {k. k = ''kubric'' \<and> (\<exists>p \<in> set ps. classify_source p = Inr Kubric)} \<union>
          {k. k = ''ytvos'' \<and> (\<exists>p \<in> set ps. classify_source p = Inr Ytvos)}"
    by simp_all
  have "length (train_dset_sources st) = card (set (map fst (train_dset_sources st)))"
    using distinct_card [OF d] by simp
  also have "\<dots> =
           (if \<exists>p \<in> set ps. classify_source p = Inr Kubric then 1 else 0) +
           (if \<exists>p \<in> set ps. classify_source p = Inr Ytvos then 1 else 0)"
    unfolding s
    by (cases "\<exists>p \<in> set ps. classify_source p = Inr Kubric";
        cases "\<exists>p \<in> set ps. classify_source p = Inr Ytvos") simp_all
  finally show ?thesis .
qed

lemma val_sources_length:
  assumes "train_val_loop args ps tv_init = Inr st"
  shows "length (val_aug_dset_sources st) =
           (if \<exists>p \<in> set ps. classify_source p = Inr Kubric then 1 else 0)"
proof -
  have "length (val_aug_dset_sources st) = length (map fst (val_aug_dset_sources st))"
    by simp
  also have "\<dots> = (if \<exists>p \<in> set ps. classify_source p = Inr Kubric then 1 else 0)"
    by (simp add: val_keys_after_loop [OF assms])
  finally show ?thesis .
qed

lemma train_val_loop_tags:
  assumes "train_val_loop args ps tv_init = Inr st" and "p \<in> set ps"
  shows "classify_source p = Inr Kubric \<or> classify_source p = Inr Ytvos"
  using train_val_loop_Inr_iff [of args ps tv_init] assms by auto

text \<open>Lines 80--91 after a loop that returned.\<close>

lemma select_train_after_loop:
  assumes "train_val_loop args ps tv_init = Inr st" and "ps \<noteq> []"
  shows "\<exists>d. select_train args st sh =
               Inr (d, if length (train_dset_sources st) > 1 then False else sh)"
proof -
  from assms(2) obtain p where p: "p \<in> set ps" by (cases ps) auto
  from train_val_loop_tags [OF assms(1) p] p train_sources_length [OF assms(1)]
  have pos: "length (train_dset_sources st) \<ge> 1" by (auto split: if_splits)
  from train_local_after_loop [OF assms(1)] assms(2)
  obtain d where d: "train_dataset st = Some d" by auto
  show ?thesis
  proof (cases "length (train_dset_sources st) = 1")
    case True
    with d show ?thesis by (simp add: select_train_def)
  next
    case False
    with pos have "length (train_dset_sources st) > 1" by simp
    then show ?thesis by (simp add: select_train_def)
  qed
qed

text \<open>
  Lines 93--109 after a loop that returned: the validation locals are bound exactly
  when a synthetic-physics path was seen, and the shuffle flag is left alone.
\<close>

lemma select_val_after_loop:
  assumes "train_val_loop args ps tv_init = Inr st"
  shows "\<exists>fa fn. select_val args st sh =
           (if (\<not> (\<exists>p \<in> set ps. classify_source p = Inr Kubric)) \<and>
               (do_val_aug args \<or> do_val_noaug args)
            then [LogError ''No validation datasets were successfully instantiated.'']
            else [],
            Inr (fa, fn, sh)) \<and>
           (fa = None \<longleftrightarrow> \<not> (\<exists>p \<in> set ps. classify_source p = Inr Kubric)) \<and>
           (fn = None \<longleftrightarrow> \<not> (\<exists>p \<in> set ps. classify_source p = Inr Kubric))"
proof (cases "\<exists>p \<in> set ps. classify_source p = Inr Kubric")
  case True
  with val_sources_length [OF assms] have l: "length (val_aug_dset_sources st) = 1" by simp
  from True val_locals_after_loop [OF assms] obtain va vn where
    "val_aug_dataset st = Some va" "val_noaug_dataset st = Some vn" by auto
  with l True show ?thesis by (simp add: select_val_def)
next
  case False
  with val_sources_length [OF assms] have l: "length (val_aug_dset_sources st) = 0" by simp
  with False show ?thesis by (simp add: select_val_def)
qed

lemma make_loaders_cases:
  "make_loaders args d fa fn sh =
     (if do_val_aug args \<and> fa = None then Inl (UnboundLocalError ''final_val_aug_dataset'')
      else if do_val_noaug args \<and> fn = None
        then Inl (UnboundLocalError ''final_val_noaug_dataset'')
      else Inr (mk_train_val_loader args (Some d) sh,
                if do_val_aug args then Some (mk_train_val_loader args (the fa) sh) else None,
                if do_val_noaug args then Some (mk_train_val_loader args (the fn) sh)
                else None))"
  by (auto simp add: make_loaders_def Let_def split: option.splits)

text \<open>
  The outcome of the whole function after a loop that returned on a non-empty list of
  paths.
\<close>

lemma create_train_val_after_loop:
  assumes "train_val_loop args (data_path args) tv_init = Inr st"
    and "data_path args \<noteq> []"
  shows "\<exists>d fa fn.
     (fa = None \<longleftrightarrow> \<not> (\<exists>p \<in> set (data_path args). classify_source p = Inr Kubric)) \<and>
     (fn = None \<longleftrightarrow> \<not> (\<exists>p \<in> set (data_path args). classify_source p = Inr Kubric)) \<and>
     select_train args st (\<not> data_loop_only args) =
       Inr (d, if length (train_dset_sources st) > 1 then False else \<not> data_loop_only args) \<and>
     create_train_val_data_loaders args =
       (if (\<not> (\<exists>p \<in> set (data_path args). classify_source p = Inr Kubric)) \<and>
           (do_val_aug args \<or> do_val_noaug args)
        then [LogError ''No validation datasets were successfully instantiated.'']
        else [],
        case make_loaders args d fa fn
               (if length (train_dset_sources st) > 1 then False else \<not> data_loop_only args) of
          Inl e \<Rightarrow> Inl e
        | Inr (train_loader, val_aug_loader, val_noaug_loader) \<Rightarrow>
            Inr (train_loader, val_aug_loader, val_noaug_loader, dset_args_sources st))"
proof -
  define sh where
    "sh = (if length (train_dset_sources st) > 1 then False else \<not> data_loop_only args)"
  define lg where
    "lg = (if (\<not> (\<exists>p \<in> set (data_path args). classify_source p = Inr Kubric)) \<and>
              (do_val_aug args \<or> do_val_noaug args)
           then [LogError ''No validation datasets were successfully instantiated.'']
           else [])"
  from select_train_after_loop [OF assms, of "\<not> data_loop_only args"] obtain d where
    d: "select_train args st (\<not> data_loop_only args) = Inr (d, sh)"
    unfolding sh_def by blast
  from select_val_after_loop [OF assms(1), of sh]
  obtain fa fn where
    v: "select_val args st sh = (lg, Inr (fa, fn, sh))"
    and fa: "fa = None \<longleftrightarrow> \<not> (\<exists>p \<in> set (data_path args). classify_source p = Inr Kubric)"
    and fn: "fn = None \<longleftrightarrow> \<not> (\<exists>p \<in> set (data_path args). classify_source p = Inr Kubric)"
    unfolding lg_def by blast
  have "create_train_val_data_loaders args =
       (lg,
        case make_loaders args d fa fn sh of
          Inl e \<Rightarrow> Inl e
        | Inr (train_loader, val_aug_loader, val_noaug_loader) \<Rightarrow>
            Inr (train_loader, val_aug_loader, val_noaug_loader, dset_args_sources st))"
    unfolding create_train_val_data_loaders_def
    by (simp add: assms(1) d v split: sum.splits prod.splits)
  with d fa fn show ?thesis unfolding sh_def lg_def by blast
qed

lemma create_train_val_empty:
  assumes "data_path args = []"
  shows "create_train_val_data_loaders args =
           ([], Inl (RuntimeError ''No training datasets were successfully instantiated.''))"
  by (simp add: create_train_val_data_loaders_def assms tv_init_def select_train_def)

lemma create_train_val_loop_Inl:
  assumes "train_val_loop args (data_path args) tv_init = Inl e"
  shows "create_train_val_data_loaders args = ([], Inl e)"
  by (simp add: create_train_val_data_loaders_def assms)

lemma dl_shuffle_mk [simp]: "dl_shuffle (mk_train_val_loader args d sh) = sh"
  by (simp add: mk_train_val_loader_def)

text \<open>
  When the statements of the function itself raise (the constructors of the datasets
  and of the loaders are recorded, not run): the loop body fails on some path, or
  there is no path, or validation is requested and no synthetic-physics path bound the
  validation locals.
\<close>

lemma create_train_val_isl:
  "isl (snd (create_train_val_data_loaders args)) \<longleftrightarrow>
     \<not> (\<forall>p \<in> set (data_path args).
          (classify_source p = Inr Kubric \<and>
             (which_seeker args = ''point_track_3d'' \<or> which_seeker args = ''mask_track_2d'')) \<or>
          (classify_source p = Inr Ytvos \<and> which_seeker args = ''mask_track_2d'')) \<or>
     data_path args = [] \<or>
     (\<not> (\<exists>p \<in> set (data_path args). classify_source p = Inr Kubric) \<and>
      (do_val_aug args \<or> do_val_noaug args))"
proof (cases "train_val_loop args (data_path args) tv_init")
  case (Inl e)
  with train_val_loop_Inr_iff [of args "data_path args" tv_init]
  have "\<not> (\<forall>p \<in> set (data_path args).
          (classify_source p = Inr Kubric \<and>
             (which_seeker args = ''point_track_3d'' \<or> which_seeker args = ''mask_track_2d'')) \<or>
          (classify_source p = Inr Ytvos \<and> which_seeker args = ''mask_track_2d''))"
    by simp
  with create_train_val_loop_Inl [OF Inl] show ?thesis by simp
next
  case (Inr st)
  with train_val_loop_Inr_iff [of args "data_path args" tv_init]
  have ok: "\<forall>p \<in> set (data_path args).
          (classify_source p = Inr Kubric \<and>
             (which_seeker args = ''point_track_3d'' \<or> which_seeker args = ''mask_track_2d'')) \<or>
          (classify_source p = Inr Ytvos \<and> which_seeker args = ''mask_track_2d'')"
    by blast
  show ?thesis
  proof (cases "data_path args = []")
    case True
    with create_train_val_empty [OF True] show ?thesis by simp
  next
    case False
    from create_train_val_after_loop [OF Inr False] obtain d fa fn lg sh where
      fa: "fa = None \<longleftrightarrow> \<not> (\<exists>p \<in> set (data_path args). classify_source p = Inr Kubric)" and
      fn: "fn = None \<longleftrightarrow> \<not> (\<exists>p \<in> set (data_path args). classify_source p = Inr Kubric)" and
      r: "create_train_val_data_loaders args =
            (lg, case make_loaders args d fa fn sh of
                   Inl e \<Rightarrow> Inl e
                 | Inr (train_loader, val_aug_loader, val_noaug_loader) \<Rightarrow>
                     Inr (train_loader, val_aug_loader, val_noaug_loader,
                          dset_args_sources st))"
      by blast
    have "isl (snd (create_train_val_data_loaders args)) \<longleftrightarrow>
            (do_val_aug args \<and> fa = None) \<or> (do_val_noaug args \<and> fn = None)"
      unfolding r by (simp add: make_loaders_cases)
    with fa fn ok False show ?thesis by blast
  qed
qed

section \<open>Shuffle flag of the training and validation loaders\<close>

text \<open>
  C6. Let the loop over the paths have returned with state \<open>st\<close> and the function
  have returned its loaders. If more than one source is present (more than one entry
  in \<open>train_dset_sources\<close>, or in \<open>val_aug_dset_sources\<close>), every loader that is built
  has its shuffle flag off. If exactly one training source is present, every loader
  that is built has the caller's request: shuffle on unless \<open>data_loop_only\<close> is set.
\<close>

theorem shuffle_forced_off_when_mixing:
  assumes "train_val_loop args (data_path args) tv_init = Inr st"
    and "create_train_val_data_loaders args =
           (logs, Inr (train_loader, val_aug_loader, val_noaug_loader, das))"
  shows "(length (train_dset_sources st) > 1 \<or> length (val_aug_dset_sources st) > 1 \<longrightarrow>
            \<not> dl_shuffle train_loader \<and>
            (\<forall>l. val_aug_loader = Some l \<longrightarrow> \<not> dl_shuffle l) \<and>
            (\<forall>l. val_noaug_loader = Some l \<longrightarrow> \<not> dl_shuffle l)) \<and>
         (length (train_dset_sources st) = 1 \<longrightarrow>
            dl_shuffle train_loader = (\<not> data_loop_only args) \<and>
            (\<forall>l. val_aug_loader = Some l \<longrightarrow> dl_shuffle l = (\<not> data_loop_only args)) \<and>
            (\<forall>l. val_noaug_loader = Some l \<longrightarrow> dl_shuffle l = (\<not> data_loop_only args)))"
proof -
  have ne: "data_path args \<noteq> []"
    using create_train_val_empty [of args] assms(2) by auto
  define sh where
    "sh = (if length (train_dset_sources st) > 1 then False else \<not> data_loop_only args)"
  from create_train_val_after_loop [OF assms(1) ne] obtain d fa fn lg where
    r: "create_train_val_data_loaders args =
          (lg, case make_loaders args d fa fn sh of
                 Inl e \<Rightarrow> Inl e
               | Inr (a, b, c) \<Rightarrow> Inr (a, b, c, dset_args_sources st))"
    unfolding sh_def by blast
  from r assms(2) have
    m: "make_loaders args d fa fn sh = Inr (train_loader, val_aug_loader, val_noaug_loader)"
    by (auto split: sum.splits)
  have tr: "dl_shuffle train_loader = sh"
    and va: "\<forall>l. val_aug_loader = Some l \<longrightarrow> dl_shuffle l = sh"
    and vn: "\<forall>l. val_noaug_loader = Some l \<longrightarrow> dl_shuffle l = sh"
    using m by (auto simp add: make_loaders_cases split: if_splits)
  have v1: "\<not> length (val_aug_dset_sources st) > 1"
    using val_sources_length [OF assms(1)] by (simp split: if_splits)
  show ?thesis using tr va vn v1 unfolding sh_def by simp
qed

theorem shuffle_forced_off_when_mixing_witness:
  "(\<exists>st logs train_loader das.
      train_val_loop example_args (data_path example_args) tv_init = Inr st \<and>
      create_train_val_data_loaders example_args = (logs, Inr (train_loader, None, None, das)) \<and>
      length (train_dset_sources st) = 2 \<and> \<not> data_loop_only example_args \<and>
      \<not> dl_shuffle train_loader) \<and>
   (\<exists>st logs train_loader das.
      train_val_loop (example_args\<lparr>data_path := [''/data/kubcon_v10'']\<rparr>)
        (data_path (example_args\<lparr>data_path := [''/data/kubcon_v10'']\<rparr>)) tv_init = Inr st \<and>
      create_train_val_data_loaders (example_args\<lparr>data_path := [''/data/kubcon_v10'']\<rparr>) =
        (logs, Inr (train_loader, None, None, das)) \<and>
      length (train_dset_sources st) = 1 \<and> dl_shuffle train_loader)"
proof -
  have k: "is_kubric_source ''/data/kubcon_v10''"
    by (simp add: is_kubric_source_def lower_def lower_char_def sublist_code prefix_code)
  have y: "\<not> is_kubric_source ''/data/youtube-vos'' \<and> is_ytvos_source ''/data/youtube-vos''"
    by (simp add: is_kubric_source_def is_ytvos_source_def lower_def lower_char_def
        sublist_code prefix_code)
  have "\<exists>st. train_val_loop example_args (data_path example_args) tv_init = Inr st \<and>
          length (train_dset_sources st) = 2"
    using k y
    by (simp add: example_args_def train_val_body_def tv_init_def
        create_youtube_vos_train_loader_def create_kubric_train_val_data_loaders_def Let_def)
  then obtain st where
    l2: "train_val_loop example_args (data_path example_args) tv_init = Inr st" and
    n2: "length (train_dset_sources st) = 2"
    by blast
  have "\<exists>logs ldr das.
          create_train_val_data_loaders example_args = (logs, Inr (ldr, None, None, das))"
    using k y
    by (simp add: create_train_val_data_loaders_def example_args_def train_val_body_def
        tv_init_def create_youtube_vos_train_loader_def
        create_kubric_train_val_data_loaders_def select_train_def select_val_def
        make_loaders_def Let_def)
  then obtain logs ldr2 das where
    r2: "create_train_val_data_loaders example_args = (logs, Inr (ldr2, None, None, das))"
    by blast
  from shuffle_forced_off_when_mixing [OF l2 r2] n2 have s2: "\<not> dl_shuffle ldr2" by simp
  have "\<exists>st. train_val_loop (example_args\<lparr>data_path := [''/data/kubcon_v10'']\<rparr>)
           (data_path (example_args\<lparr>data_path := [''/data/kubcon_v10'']\<rparr>)) tv_init = Inr st \<and>
          length (train_dset_sources st) = 1"
    using k
    by (simp add: example_args_def train_val_body_def tv_init_def
        create_kubric_train_val_data_loaders_def Let_def)
  then obtain st1 where
    l1: "train_val_loop (example_args\<lparr>data_path := [''/data/kubcon_v10'']\<rparr>)
           (data_path (example_args\<lparr>data_path := [''/data/kubcon_v10'']\<rparr>)) tv_init = Inr st1"
    and n1: "length (train_dset_sources st1) = 1"
    by blast
  have "\<exists>logs ldr das.
          create_train_val_data_loaders (example_args\<lparr>data_path := [''/data/kubcon_v10'']\<rparr>) =
            (logs, Inr (ldr, None, None, das))"
    using k
    by (simp add: create_train_val_data_loaders_def example_args_def train_val_body_def
        tv_init_def create_kubric_train_val_data_loaders_def select_train_def select_val_def
        make_loaders_def Let_def)
  then obtain logs1 ldr1 das1 where
    r1: "create_train_val_data_loaders (example_args\<lparr>data_path := [''/data/kubcon_v10'']\<rparr>) =
           (logs1, Inr (ldr1, None, None, das1))"
    by blast
  from shuffle_forced_off_when_mixing [OF l1 r1] n1 have s1: "dl_shuffle ldr1"
    by (simp add: example_args_def)
  have dlo: "\<not> data_loop_only example_args" by (simp add: example_args_def)
  from l2 r2 n2 s2 dlo l1 r1 n1 s1 show ?thesis by blast
qed

section \<open>Fatal errors of create\_train\_val\_data\_loaders\<close>

lemma classify_source_Inl:
  "classify_source p = Inl e \<Longrightarrow> e = ValueError (''Unknown data path: '' @ p)"
  by (auto simp add: classify_source_def split: if_splits)

lemma classify_source_cases:
  "isl (classify_source p) \<or> classify_source p = Inr Kubric \<or>
   classify_source p = Inr Ytvos \<or> classify_source p = Inr Plugin"
  by (simp add: classify_source_def)

text \<open>
  With the seeker \<open>mask_track_2d\<close> both builders succeed, and the first path that is
  neither synthetic-physics nor web-video decides the exception of the loop.
\<close>

lemma train_val_loop_first_unsupported:
  assumes "which_seeker args = ''mask_track_2d''"
    and "find (\<lambda>p. classify_source p \<noteq> Inr Kubric \<and> classify_source p \<noteq> Inr Ytvos) ps = Some p"
  shows "train_val_loop args ps st =
           Inl (if classify_source p = Inr Plugin
                then NotImplementedError ''Plugin video is only available at test time.''
                else ValueError (''Unknown data path: '' @ p))"
  using assms(2)
proof (induction ps arbitrary: st)
  case Nil
  then show ?case by simp
next
  case (Cons q ps)
  show ?case
  proof (cases "classify_source q \<noteq> Inr Kubric \<and> classify_source q \<noteq> Inr Ytvos")
    case True
    with Cons.prems have pq: "p = q" by simp
    from True classify_source_cases [of q]
    have "isl (classify_source q) \<or> classify_source q = Inr Plugin" by blast
    then show ?thesis
    proof
      assume "isl (classify_source q)"
      then obtain e where e: "classify_source q = Inl e" by (cases "classify_source q") auto
      from classify_source_Inl [OF e] e pq show ?thesis
        by (simp add: train_val_body_dispatch)
    next
      assume "classify_source q = Inr Plugin"
      with pq show ?thesis by (simp add: train_val_body_dispatch)
    qed
  next
    case False
    with Cons.prems have f: "find (\<lambda>p. classify_source p \<noteq> Inr Kubric \<and>
                                       classify_source p \<noteq> Inr Ytvos) ps = Some p"
      by simp
    from False assms(1) train_val_body_Inr_iff [of args q st]
    obtain s where "train_val_body args q st = Inr s" by auto
    with Cons.IH [OF f, of s] show ?thesis by simp
  qed
qed

text \<open>
  A run on a synthetic-physics folder and a web-video folder with the seeker
  \<open>point_track_3d\<close>: both paths are recognised, neither is a user clip, the
  synthetic-physics training dataset is built, and the function still raises, from
  the assertion of the web-video builder.
\<close>

theorem train_val_fatal_errors_counterexample:
  "snd (create_train_val_data_loaders (example_args\<lparr>which_seeker := ''point_track_3d''\<rparr>)) =
     Inl AssertionError \<and>
   data_path (example_args\<lparr>which_seeker := ''point_track_3d''\<rparr>) =
     [''/data/kubcon_v10'', ''/data/youtube-vos''] \<and>
   classify_source ''/data/kubcon_v10'' = Inr Kubric \<and>
   classify_source ''/data/youtube-vos'' = Inr Ytvos"
proof -
  have k: "is_kubric_source ''/data/kubcon_v10''"
    by (simp add: is_kubric_source_def lower_def lower_char_def sublist_code prefix_code)
  have y: "\<not> is_kubric_source ''/data/youtube-vos'' \<and> is_ytvos_source ''/data/youtube-vos''"
    by (simp add: is_kubric_source_def is_ytvos_source_def lower_def lower_char_def
        sublist_code prefix_code)
  show ?thesis
    using k y
    by (simp add: create_train_val_data_loaders_def example_args_def train_val_body_def
        tv_init_def create_youtube_vos_train_loader_def
        create_kubric_train_val_data_loaders_def classify_source_def Let_def)
qed

text \<open>
  C7, amended. \<open>create_train_val_data_loaders\<close> raises whenever some path matches no
  classification rule, some path is a user clip, or there is no path at all (no
  training dataset), and also, by the assertion of the web-video builder, whenever a
  web-video path comes with a seeker other than \<open>mask_track_2d\<close>.
  An empty list of paths gives the \<open>RuntimeError\<close>; with the seeker \<open>mask_track_2d\<close>
  the first path that is neither synthetic-physics nor web-video gives the
  \<open>NotImplementedError\<close> when it is a user clip and the \<open>ValueError\<close> otherwise.
  Nothing is said about these being the only situations: the constructors of the
  datasets and of the loaders, which are recorded here and not run, have failures of
  their own.
\<close>

theorem train_val_fatal_errors:
  "((\<exists>p \<in> set (data_path args). isl (classify_source p)) \<or>
    (\<exists>p \<in> set (data_path args). classify_source p = Inr Plugin) \<or>
    data_path args = [] \<or>
    ((\<exists>p \<in> set (data_path args). classify_source p = Inr Ytvos) \<and>
     which_seeker args \<noteq> ''mask_track_2d'')
    \<longrightarrow> isl (snd (create_train_val_data_loaders args))) \<and>
   (data_path args = []
    \<longrightarrow> snd (create_train_val_data_loaders args) =
          Inl (RuntimeError ''No training datasets were successfully instantiated.'')) \<and>
   (which_seeker args = ''mask_track_2d''
    \<longrightarrow> (\<forall>p. find (\<lambda>p. classify_source p \<noteq> Inr Kubric \<and> classify_source p \<noteq> Inr Ytvos)
                 (data_path args) = Some p
              \<longrightarrow> snd (create_train_val_data_loaders args) =
                    Inl (if classify_source p = Inr Plugin
                         then NotImplementedError
                                ''Plugin video is only available at test time.''
                         else ValueError (''Unknown data path: '' @ p))))"
proof -
  let ?ok = "\<lambda>p. (classify_source p = Inr Kubric \<and>
                    (which_seeker args = ''point_track_3d'' \<or>
                     which_seeker args = ''mask_track_2d'')) \<or>
                 (classify_source p = Inr Ytvos \<and> which_seeker args = ''mask_track_2d'')"
  have ok_iff: "?ok p \<longleftrightarrow>
      \<not> (isl (classify_source p) \<or> classify_source p = Inr Plugin \<or>
         (classify_source p = Inr Kubric \<and> which_seeker args \<noteq> ''point_track_3d'' \<and>
          which_seeker args \<noteq> ''mask_track_2d'') \<or>
         (classify_source p = Inr Ytvos \<and> which_seeker args \<noteq> ''mask_track_2d''))" for p
    using classify_source_cases [of p] by (cases "classify_source p") auto
  note m = create_train_val_isl [of args]
  have a: "(\<exists>p \<in> set (data_path args). isl (classify_source p)) \<or>
    (\<exists>p \<in> set (data_path args). classify_source p = Inr Plugin) \<or>
    data_path args = [] \<or>
    ((\<exists>p \<in> set (data_path args). classify_source p = Inr Ytvos) \<and>
     which_seeker args \<noteq> ''mask_track_2d'')
    \<Longrightarrow> isl (snd (create_train_val_data_loaders args))"
    unfolding m using ok_iff by blast
  have c: "snd (create_train_val_data_loaders args) =
          Inl (RuntimeError ''No training datasets were successfully instantiated.'')"
    if "data_path args = []"
    using create_train_val_empty [OF that] by simp
  have d: "snd (create_train_val_data_loaders args) =
                    Inl (if classify_source p = Inr Plugin
                         then NotImplementedError
                                ''Plugin video is only available at test time.''
                         else ValueError (''Unknown data path: '' @ p))"
    if "which_seeker args = ''mask_track_2d''"
      and "find (\<lambda>p. classify_source p \<noteq> Inr Kubric \<and> classify_source p \<noteq> Inr Ytvos)
             (data_path args) = Some p" for p
    using create_train_val_loop_Inl [OF train_val_loop_first_unsupported [OF that, of tv_init]]
    by simp
  from a c d show ?thesis by blast
qed

theorem train_val_fatal_errors_witness:
  "(\<exists>p \<in> set (data_path (example_args\<lparr>data_path := [''/data/kubcon_v10'', ''/clips/cat.mp4'']\<rparr>)).
      classify_source p = Inr Plugin) \<and>
   which_seeker (example_args\<lparr>data_path := [''/data/kubcon_v10'', ''/clips/cat.mp4'']\<rparr>) =
     ''mask_track_2d'' \<and>
   find (\<lambda>p. classify_source p \<noteq> Inr Kubric \<and> classify_source p \<noteq> Inr Ytvos)
     (data_path (example_args\<lparr>data_path := [''/data/kubcon_v10'', ''/clips/cat.mp4'']\<rparr>)) =
     Some ''/clips/cat.mp4'' \<and>
   isl (snd (create_train_val_data_loaders
          (example_args\<lparr>data_path := [''/data/kubcon_v10'', ''/clips/cat.mp4'']\<rparr>))) \<and>
   snd (create_train_val_data_loaders
          (example_args\<lparr>data_path := [''/data/kubcon_v10'', ''/clips/cat.mp4'']\<rparr>)) =
     Inl (NotImplementedError ''Plugin video is only available at test time.'') \<and>
   snd (create_train_val_data_loaders (example_args\<lparr>data_path := []\<rparr>)) =
     Inl (RuntimeError ''No training datasets were successfully instantiated.'')"
proof -
  have k: "classify_source ''/data/kubcon_v10'' = Inr Kubric"
    by (simp add: classify_source_def is_kubric_source_def lower_def lower_char_def
        sublist_code prefix_code)
  have c: "classify_source ''/clips/cat.mp4'' = Inr Plugin"
    by (simp add: classify_source_def is_kubric_source_def is_ytvos_source_def
        is_plugin_source_def lower_def lower_char_def sublist_code prefix_code
        suffix_to_prefix)
  let ?a = "example_args\<lparr>data_path := [''/data/kubcon_v10'', ''/clips/cat.mp4'']\<rparr>"
  have s: "which_seeker ?a = ''mask_track_2d''" by (simp add: example_args_def)
  have f: "find (\<lambda>p. classify_source p \<noteq> Inr Kubric \<and> classify_source p \<noteq> Inr Ytvos)
             (data_path ?a) = Some ''/clips/cat.mp4''"
    using k c by (simp add: example_args_def)
  have p: "\<exists>p \<in> set (data_path ?a). classify_source p = Inr Plugin"
    using c by (simp add: example_args_def)
  from train_val_fatal_errors [of ?a] p
  have r0: "isl (snd (create_train_val_data_loaders ?a))"
    by blast
  from train_val_fatal_errors [of ?a] s f c
  have r1: "snd (create_train_val_data_loaders ?a) =
              Inl (NotImplementedError ''Plugin video is only available at test time.'')"
    by simp
  have e: "data_path (example_args\<lparr>data_path := []\<rparr>) = []" by simp
  from train_val_fatal_errors [of "example_args\<lparr>data_path := []\<rparr>"] e
  have r2: "snd (create_train_val_data_loaders (example_args\<lparr>data_path := []\<rparr>)) =
              Inl (RuntimeError ''No training datasets were successfully instantiated.'')"
    by blast
  from p s f r0 r1 r2 show ?thesis by (intro conjI)
qed

section \<open>Validation requested without a validation source\<close>

text \<open>
  When validation is requested and no synthetic-physics path is among the paths, no
  source has contributed a validation dataset; the function then raises, for every
  such input.
\<close>

lemma missing_validation_raises:
  assumes "do_val_aug args \<or> do_val_noaug args"
    and "\<not> (\<exists>p \<in> set (data_path args). classify_source p = Inr Kubric)"
  shows "isl (snd (create_train_val_data_loaders args))"
  using assms by (simp add: create_train_val_isl)

text \<open>
  C9. With validation requested and no validation dataset contributed, the function is
  meant to log the absence and return normally. On the single web-video path
  \<open>/data/youtube-vos\<close> with \<open>do_val_aug\<close> set, the training dataset is built and the
  absence is logged, but the function then raises \<open>UnboundLocalError\<close>: building the
  validation loader reads the local \<open>final_val_aug_dataset\<close>, which no branch has
  bound.
\<close>

theorem missing_validation_logged_then_raises:
  "create_train_val_data_loaders
     (example_args\<lparr>data_path := [''/data/youtube-vos''], do_val_aug := True\<rparr>) =
   ([LogError ''No validation datasets were successfully instantiated.''],
    Inl (UnboundLocalError ''final_val_aug_dataset''))"
proof -
  have y: "\<not> is_kubric_source ''/data/youtube-vos'' \<and> is_ytvos_source ''/data/youtube-vos''"
    by (simp add: is_kubric_source_def is_ytvos_source_def lower_def lower_char_def
        sublist_code prefix_code)
  show ?thesis
    using y
    by (simp add: create_train_val_data_loaders_def example_args_def train_val_body_def
        tv_init_def create_youtube_vos_train_loader_def select_train_def select_val_def
        make_loaders_def Let_def)
qed

section \<open>Test configuration of the web-video source\<close>

lemma kubric_builder_fields:
  assumes "create_kubric_train_val_data_loaders args p = Inr (tr, va, vn, cfg)"
  shows "map_of cfg ''num_frames'' = Some (num_frames args)"
    and "map_of cfg ''frame_height'' = Some (frame_height args)"
    and "map_of cfg ''frame_width'' = Some (frame_width args)"
    and "map_of cfg ''query_time'' = Some (seeker_query_time args)"
  using assms
  by (auto simp add: create_kubric_train_val_data_loaders_def Let_def split: if_splits)

lemma ytvos_builder_fields:
  assumes "create_youtube_vos_train_loader args p = Inr (tr, cfg)"
  shows "map_of cfg ''num_frames'' = Some (num_frames args)"
    and "map_of cfg ''frame_height'' = Some (frame_height args)"
    and "map_of cfg ''frame_width'' = Some (frame_width args)"
    and "map_of cfg ''query_time'' = Some (seeker_query_time args)"
  using assms
  by (auto simp add: create_youtube_vos_train_loader_def Let_def split: if_splits)

text \<open>
  Every configuration that the loop stores under a tag comes from the builder of that
  tag.
\<close>

lemma dset_args_sources_after_loop:
  assumes "train_val_loop args ps st = Inr st'"
  shows "(map_of (dset_args_sources st') ''kubric'' = map_of (dset_args_sources st) ''kubric'' \<or>
          (\<exists>p tr va vn cfg.
             create_kubric_train_val_data_loaders args p = Inr (tr, va, vn, cfg) \<and>
             map_of (dset_args_sources st') ''kubric'' = Some (VDict cfg))) \<and>
         (map_of (dset_args_sources st') ''ytvos'' = map_of (dset_args_sources st) ''ytvos'' \<or>
          (\<exists>p tr cfg.
             create_youtube_vos_train_loader args p = Inr (tr, cfg) \<and>
             map_of (dset_args_sources st') ''ytvos'' = Some (VDict cfg)))"
  using assms
proof (induction ps arbitrary: st' rule: rev_induct)
  case Nil
  then show ?case by simp
next
  case (snoc p ps)
  from snoc.prems obtain s where
    s: "train_val_loop args ps st = Inr s" and b: "train_val_body args p s = Inr st'"
    by (auto simp add: train_val_loop_snoc)
  note ih = snoc.IH [OF s]
  from train_val_body_tag [OF b] show ?case
  proof
    assume k: "classify_source p = Inr Kubric"
    from train_val_body_Kubric [OF k b] obtain tr va vn cfg where
      c: "create_kubric_train_val_data_loaders args p = Inr (tr, va, vn, cfg)" and
      d: "dset_args_sources st' = AList.update ''kubric'' (VDict cfg) (dset_args_sources s)"
      by auto
    have "map_of (dset_args_sources st') ''kubric'' = Some (VDict cfg)"
      by (simp add: d update_conv')
    moreover have "map_of (dset_args_sources st') ''ytvos'' = map_of (dset_args_sources s) ''ytvos''"
      by (simp add: d update_conv')
    ultimately show ?thesis using ih c by metis
  next
    assume y: "classify_source p = Inr Ytvos"
    from train_val_body_Ytvos [OF y b] obtain tr cfg where
      c: "create_youtube_vos_train_loader args p = Inr (tr, cfg)" and
      d: "dset_args_sources st' = AList.update ''ytvos'' (VDict cfg) (dset_args_sources s)"
      by auto
    have "map_of (dset_args_sources st') ''ytvos'' = Some (VDict cfg)"
      by (simp add: d update_conv')
    moreover have "map_of (dset_args_sources st') ''kubric'' = map_of (dset_args_sources s) ''kubric''"
      by (simp add: d update_conv')
    ultimately show ?thesis using ih c by metis
  qed
qed

lemma create_train_val_Inr_loop:
  assumes "create_train_val_data_loaders args = (logs, Inr (ldr, va, vn, das))"
  shows "\<exists>st. train_val_loop args (data_path args) tv_init = Inr st \<and>
              das = dset_args_sources st"
  using assms
  by (auto simp add: create_train_val_data_loaders_def split: sum.splits prod.splits)

text \<open>
  The frame-count, resolution and query-time fields of the configurations that
  \<open>create_train_val_data_loaders\<close> returns are the run options, under either tag.
\<close>

lemma returned_train_configs_fields:
  assumes "create_train_val_data_loaders args = (logs, Inr (ldr, va, vn, das))"
    and "map_of das tag = Some (VDict cfg)" and "tag = ''kubric'' \<or> tag = ''ytvos''"
  shows "map_of cfg ''num_frames'' = Some (num_frames args) \<and>
         map_of cfg ''frame_height'' = Some (frame_height args) \<and>
         map_of cfg ''frame_width'' = Some (frame_width args) \<and>
         map_of cfg ''query_time'' = Some (seeker_query_time args)"
proof -
  from create_train_val_Inr_loop [OF assms(1)] obtain st where
    l: "train_val_loop args (data_path args) tv_init = Inr st" and
    das: "das = dset_args_sources st"
    by blast
  have i: "map_of (dset_args_sources tv_init) t = None" for t
    by (simp add: tv_init_def)
  from assms(3) show ?thesis
  proof
    assume t: "tag = ''kubric''"
    from dset_args_sources_after_loop [OF l] assms(2) i [of "''kubric''"]
    obtain p tr va' vn' where
      "create_kubric_train_val_data_loaders args p = Inr (tr, va', vn', cfg)"
      unfolding das t by auto
    from kubric_builder_fields [OF this] show ?thesis by simp
  next
    assume t: "tag = ''ytvos''"
    from dset_args_sources_after_loop [OF l] assms(2) i [of "''ytvos''"]
    obtain p tr where "create_youtube_vos_train_loader args p = Inr (tr, cfg)"
      unfolding das t by auto
    from ytvos_builder_fields [OF this] show ?thesis by simp
  qed
qed

text \<open>What the two test builders keep of the train configuration they copy.\<close>

lemma kubric_test_keeps:
  assumes "create_kubric_test_data_loader train_args test_args srcs p = Inr (d, tc)"
  shows "\<exists>cfg. map_of srcs ''kubric'' = Some (VDict cfg) \<and>
           d = KubricQueryDataset p ''test'' tc \<and>
           (\<forall>k. k \<notin> {''single_scene'', ''fake_data'', ''use_data_frac'', ''augs_2d'',
                      ''augs_3d'', ''num_queries'', ''force_perturb_idx'', ''force_view_idx'',
                      ''degrade'', ''annot_visible_pxl_only'', ''augs_version'',
                      ''load_full_segm''} \<longrightarrow> map_of tc k = map_of cfg k)"
  using assms
  unfolding create_kubric_test_data_loader_def
  by (auto simp add: Let_def update_conv' delete_conv' split: option.splits pyval.splits)

lemma ytvos_test_keeps:
  assumes "create_youtube_vos_test_loader train_args test_args srcs p = Inr (d, tc)"
  shows "\<exists>cfg. map_of srcs ''ytvos'' = Some (VDict cfg) \<and>
           d = YoutubeVOSDataset p ''test'' tc \<and>
           (\<forall>k. k \<notin> {''use_data_frac'', ''augs_2d'', ''augs_version''} \<longrightarrow>
                 map_of tc k = map_of cfg k)"
  using assms
  unfolding create_youtube_vos_test_loader_def
  by (auto simp add: Let_def update_conv' split: option.splits pyval.splits)

text \<open>
  Two train configurations that differ in the frame count, stored under the two tags.
  The web-video test configuration has the frame count of the web-video train
  configuration, 16, and the synthetic-physics test configuration has 8.
\<close>

theorem ytvos_test_config_counterexample:
  "create_youtube_vos_test_loader example_args example_args
     [(''kubric'', VDict [(''num_frames'', VInt 8), (''augs_version'', VInt 4)]),
      (''ytvos'', VDict [(''num_frames'', VInt 16), (''augs_version'', VInt 4)])]
     ''/data/youtube-vos'' =
   Inr (YoutubeVOSDataset ''/data/youtube-vos'' ''test''
          [(''num_frames'', VInt 16), (''augs_version'', VInt 4),
           (''use_data_frac'', VFloat 1), (''augs_2d'', VBool False)],
        [(''num_frames'', VInt 16), (''augs_version'', VInt 4),
         (''use_data_frac'', VFloat 1), (''augs_2d'', VBool False)]) \<and>
   create_kubric_test_data_loader example_args example_args
     [(''kubric'', VDict [(''num_frames'', VInt 8), (''augs_version'', VInt 4)]),
      (''ytvos'', VDict [(''num_frames'', VInt 16), (''augs_version'', VInt 4)])]
     ''/data/kubcon_v10'' =
   Inr (KubricQueryDataset ''/data/kubcon_v10'' ''test''
          [(''num_frames'', VInt 8), (''augs_version'', VInt 4),
           (''single_scene'', VBool False), (''fake_data'', VBool False),
           (''use_data_frac'', VFloat 1), (''augs_2d'', VBool False),
           (''augs_3d'', VBool False), (''num_queries'', VInt 3),
           (''force_perturb_idx'', VInt (- 1)), (''force_view_idx'', VInt (- 1)),
           (''degrade'', VStr ''none''), (''annot_visible_pxl_only'', VBool False)],
        [(''num_frames'', VInt 8), (''augs_version'', VInt 4),
         (''single_scene'', VBool False), (''fake_data'', VBool False),
         (''use_data_frac'', VFloat 1), (''augs_2d'', VBool False),
         (''augs_3d'', VBool False), (''num_queries'', VInt 3),
         (''force_perturb_idx'', VInt (- 1)), (''force_view_idx'', VInt (- 1)),
         (''degrade'', VStr ''none''), (''annot_visible_pxl_only'', VBool False)])"
  by (simp add: create_youtube_vos_test_loader_def create_kubric_test_data_loader_def
      example_args_def Let_def)

text \<open>
  C8, amended. The web-video test configuration is built from the web-video train
  configuration stored under \<open>ytvos\<close>: every field other than \<open>use_data_frac\<close>,
  \<open>augs_2d\<close> and \<open>augs_version\<close>, so in particular \<open>num_frames\<close>, \<open>frame_height\<close>,
  \<open>frame_width\<close> and \<open>query_time\<close>, keeps its train value; \<open>use_data_frac\<close> is the
  test option, \<open>augs_2d\<close> is \<open>False\<close>, and \<open>augs_version\<close> keeps its train value
  when the train configuration has one and is 1 otherwise. When the train
  configurations are those that \<open>create_train_val_data_loaders\<close> returned, the fields
  \<open>num_frames\<close>, \<open>frame_height\<close>, \<open>frame_width\<close> and \<open>query_time\<close> of the web-video
  test configuration equal those of the synthetic-physics test configuration.
\<close>

theorem ytvos_test_config_from_ytvos_train:
  "(map_of srcs ''ytvos'' = Some (VDict cfg) \<longrightarrow>
      (\<exists>tc. create_youtube_vos_test_loader train_args test_args srcs p =
               Inr (YoutubeVOSDataset p ''test'' tc, tc) \<and>
            (\<forall>k. k \<notin> {''use_data_frac'', ''augs_2d'', ''augs_version''} \<longrightarrow>
                  map_of tc k = map_of cfg k) \<and>
            map_of tc ''use_data_frac'' = Some (use_data_frac test_args) \<and>
            map_of tc ''augs_2d'' = Some (VBool False) \<and>
            map_of tc ''augs_version'' =
              Some (case map_of cfg ''augs_version'' of None \<Rightarrow> VInt 1 | Some v \<Rightarrow> v))) \<and>
   (create_train_val_data_loaders args = (logs, Inr (ldr, va, vn, das)) \<and>
    create_youtube_vos_test_loader train_args test_args das p = Inr (yd, yc) \<and>
    create_kubric_test_data_loader train_args test_args das q = Inr (kd, kc) \<longrightarrow>
      (\<forall>k \<in> {''num_frames'', ''frame_height'', ''frame_width'', ''query_time''}.
         map_of yc k = map_of kc k))"
proof -
  have a: "\<exists>tc. create_youtube_vos_test_loader train_args test_args srcs p =
               Inr (YoutubeVOSDataset p ''test'' tc, tc) \<and>
            (\<forall>k. k \<notin> {''use_data_frac'', ''augs_2d'', ''augs_version''} \<longrightarrow>
                  map_of tc k = map_of cfg k) \<and>
            map_of tc ''use_data_frac'' = Some (use_data_frac test_args) \<and>
            map_of tc ''augs_2d'' = Some (VBool False) \<and>
            map_of tc ''augs_version'' =
              Some (case map_of cfg ''augs_version'' of None \<Rightarrow> VInt 1 | Some v \<Rightarrow> v)"
    if "map_of srcs ''ytvos'' = Some (VDict cfg)"
    using that unfolding create_youtube_vos_test_loader_def
    by (auto simp add: Let_def update_conv')
  have b: "\<forall>k \<in> {''num_frames'', ''frame_height'', ''frame_width'', ''query_time''}.
             map_of yc k = map_of kc k"
    if r: "create_train_val_data_loaders args = (logs, Inr (ldr, va, vn, das))"
      and y: "create_youtube_vos_test_loader train_args test_args das p = Inr (yd, yc)"
      and k: "create_kubric_test_data_loader train_args test_args das q = Inr (kd, kc)"
  proof -
    from ytvos_test_keeps [OF y] obtain ycfg where
      ys: "map_of das ''ytvos'' = Some (VDict ycfg)" and
      yk: "\<forall>k. k \<notin> {''use_data_frac'', ''augs_2d'', ''augs_version''} \<longrightarrow>
                 map_of yc k = map_of ycfg k"
      by blast
    from kubric_test_keeps [OF k] obtain kcfg where
      ks: "map_of das ''kubric'' = Some (VDict kcfg)" and
      kk: "\<forall>k. k \<notin> {''single_scene'', ''fake_data'', ''use_data_frac'', ''augs_2d'',
                      ''augs_3d'', ''num_queries'', ''force_perturb_idx'', ''force_view_idx'',
                      ''degrade'', ''annot_visible_pxl_only'', ''augs_version'',
                      ''load_full_segm''} \<longrightarrow> map_of kc k = map_of kcfg k"
      by blast
    note yf = returned_train_configs_fields [OF r ys]
    note kf = returned_train_configs_fields [OF r ks]
    have "map_of yc ''num_frames'' = map_of kc ''num_frames''"
      using yk kk yf kf by simp
    moreover have "map_of yc ''frame_height'' = map_of kc ''frame_height''"
      using yk kk yf kf by simp
    moreover have "map_of yc ''frame_width'' = map_of kc ''frame_width''"
      using yk kk yf kf by simp
    moreover have "map_of yc ''query_time'' = map_of kc ''query_time''"
      using yk kk yf kf by simp
    ultimately show ?thesis by simp
  qed
  from a b show ?thesis by blast
qed

theorem ytvos_test_config_from_ytvos_train_witness:
  "\<exists>logs ldr das yd yc kd kc.
     create_train_val_data_loaders example_args = (logs, Inr (ldr, None, None, das)) \<and>
     create_youtube_vos_test_loader example_args example_args das ''/data/youtube-vos'' =
       Inr (yd, yc) \<and>
     create_kubric_test_data_loader example_args example_args das ''/data/kubcon_v10'' =
       Inr (kd, kc) \<and>
     map_of yc ''num_frames'' = map_of kc ''num_frames'' \<and>
     map_of yc ''query_time'' = map_of kc ''query_time'' \<and>
     map_of [(''ytvos'', VDict [(''num_frames'', VInt 16)])] ''ytvos'' =
       Some (VDict [(''num_frames'', VInt 16)]) \<and>
     (\<exists>tc. create_youtube_vos_test_loader example_args example_args
             [(''ytvos'', VDict [(''num_frames'', VInt 16)])] ''/data/youtube-vos'' =
             Inr (YoutubeVOSDataset ''/data/youtube-vos'' ''test'' tc, tc) \<and>
           map_of tc ''num_frames'' = Some (VInt 16) \<and>
           map_of tc ''augs_2d'' = Some (VBool False) \<and>
           map_of tc ''augs_version'' = Some (VInt 1)) \<and>
     map_of [(''ytvos'', VDict [(''augs_version'', VInt 3)])] ''ytvos'' =
       Some (VDict [(''augs_version'', VInt 3)]) \<and>
     (\<exists>tc. create_youtube_vos_test_loader example_args example_args
             [(''ytvos'', VDict [(''augs_version'', VInt 3)])] ''/data/youtube-vos'' =
             Inr (YoutubeVOSDataset ''/data/youtube-vos'' ''test'' tc, tc) \<and>
           map_of tc ''augs_version'' = Some (VInt 3))"
proof -
  have k: "is_kubric_source ''/data/kubcon_v10''"
    by (simp add: is_kubric_source_def lower_def lower_char_def sublist_code prefix_code)
  have y: "\<not> is_kubric_source ''/data/youtube-vos'' \<and> is_ytvos_source ''/data/youtube-vos''"
    by (simp add: is_kubric_source_def is_ytvos_source_def lower_def lower_char_def
        sublist_code prefix_code)
  have "\<exists>logs ldr das yd yc kd kc.
     create_train_val_data_loaders example_args = (logs, Inr (ldr, None, None, das)) \<and>
     create_youtube_vos_test_loader example_args example_args das ''/data/youtube-vos'' =
       Inr (yd, yc) \<and>
     create_kubric_test_data_loader example_args example_args das ''/data/kubcon_v10'' =
       Inr (kd, kc)"
    using k y
    by (simp add: create_train_val_data_loaders_def example_args_def train_val_body_def
        tv_init_def create_youtube_vos_train_loader_def
        create_kubric_train_val_data_loaders_def select_train_def select_val_def
        make_loaders_def create_youtube_vos_test_loader_def
        create_kubric_test_data_loader_def Let_def)
  then obtain logs ldr das yd yc kd kc where
    r: "create_train_val_data_loaders example_args = (logs, Inr (ldr, None, None, das))" and
    yt: "create_youtube_vos_test_loader example_args example_args das ''/data/youtube-vos'' =
           Inr (yd, yc)" and
    kt: "create_kubric_test_data_loader example_args example_args das ''/data/kubcon_v10'' =
           Inr (kd, kc)"
    by blast
  from ytvos_test_config_from_ytvos_train
         [where args = example_args and train_args = example_args and
            test_args = example_args and das = das and logs = logs and ldr = ldr and
            va = None and vn = None and p = "''/data/youtube-vos''" and yd = yd and
            yc = yc and q = "''/data/kubcon_v10''" and kd = kd and kc = kc]
       r yt kt
  have e: "map_of yc ''num_frames'' = map_of kc ''num_frames'' \<and>
        map_of yc ''query_time'' = map_of kc ''query_time''"
    by simp
  have m1: "map_of [(''ytvos'', VDict [(''num_frames'', VInt 16)])] ''ytvos'' =
              Some (VDict [(''num_frames'', VInt 16)])"
    by simp
  from ytvos_test_config_from_ytvos_train
         [where srcs = "[(''ytvos'', VDict [(''num_frames'', VInt 16)])]" and
            cfg = "[(''num_frames'', VInt 16)]" and train_args = example_args and
            test_args = example_args and p = "''/data/youtube-vos''",
          THEN conjunct1, rule_format, OF m1]
  obtain tc where
    t1: "create_youtube_vos_test_loader example_args example_args
           [(''ytvos'', VDict [(''num_frames'', VInt 16)])] ''/data/youtube-vos'' =
           Inr (YoutubeVOSDataset ''/data/youtube-vos'' ''test'' tc, tc)" and
    t2: "\<forall>k. k \<notin> {''use_data_frac'', ''augs_2d'', ''augs_version''} \<longrightarrow>
              map_of tc k = map_of [(''num_frames'', VInt 16)] k" and
    t3: "map_of tc ''augs_2d'' = Some (VBool False)" and
    t4: "map_of tc ''augs_version'' =
           Some (case map_of [(''num_frames'', VInt 16)] ''augs_version'' of
                   None \<Rightarrow> VInt 1 | Some v \<Rightarrow> v)"
    by blast
  from t2 have t5: "map_of tc ''num_frames'' = Some (VInt 16)" by simp
  from t4 have t6: "map_of tc ''augs_version'' = Some (VInt 1)" by simp
  have f1: "\<exists>tc. create_youtube_vos_test_loader example_args example_args
             [(''ytvos'', VDict [(''num_frames'', VInt 16)])] ''/data/youtube-vos'' =
             Inr (YoutubeVOSDataset ''/data/youtube-vos'' ''test'' tc, tc) \<and>
           map_of tc ''num_frames'' = Some (VInt 16) \<and>
           map_of tc ''augs_2d'' = Some (VBool False) \<and>
           map_of tc ''augs_version'' = Some (VInt 1)"
    using t1 t5 t3 t6 by blast
  have m2: "map_of [(''ytvos'', VDict [(''augs_version'', VInt 3)])] ''ytvos'' =
              Some (VDict [(''augs_version'', VInt 3)])"
    by simp
  from ytvos_test_config_from_ytvos_train
         [where srcs = "[(''ytvos'', VDict [(''augs_version'', VInt 3)])]" and
            cfg = "[(''augs_version'', VInt 3)]" and train_args = example_args and
            test_args = example_args and p = "''/data/youtube-vos''",
          THEN conjunct1, rule_format, OF m2]
  obtain tc' where
    u1: "create_youtube_vos_test_loader example_args example_args
           [(''ytvos'', VDict [(''augs_version'', VInt 3)])] ''/data/youtube-vos'' =
           Inr (YoutubeVOSDataset ''/data/youtube-vos'' ''test'' tc', tc')" and
    u4: "map_of tc' ''augs_version'' =
           Some (case map_of [(''augs_version'', VInt 3)] ''augs_version'' of
                   None \<Rightarrow> VInt 1 | Some v \<Rightarrow> v)"
    by blast
  from u4 have u6: "map_of tc' ''augs_version'' = Some (VInt 3)" by simp
  have f2: "\<exists>tc. create_youtube_vos_test_loader example_args example_args
             [(''ytvos'', VDict [(''augs_version'', VInt 3)])] ''/data/youtube-vos'' =
             Inr (YoutubeVOSDataset ''/data/youtube-vos'' ''test'' tc, tc) \<and>
           map_of tc ''augs_version'' = Some (VInt 3)"
    using u1 u6 by blast
  from r yt kt e m1 f1 m2 f2 show ?thesis by blast
qed

section \<open>Several paths of one source tag\<close>

subsection \<open>Training\<close>


subsection \<open>Testing\<close>














end
